theory Spec2Isabelle
  imports Complex_Main "HOL-Library.List_Lexorder"
begin

section \<open>Strings of the source language\<close>

text \<open>
  A Python \<open>str\<close> is a sequence of Unicode code points: \<open>len\<close> counts code points and
  \<open><\<close>, \<open><=\<close> compare code point by code point, a proper prefix being smaller. Both
  are what lists of naturals under the lexicographic order give, so a string is the list
  of its code points. \<open>str\<close> writes an ASCII literal.
\<close>

type_synonym pystr = "nat list"

definition str :: "string \<Rightarrow> pystr" where
  "str s = map of_char s"

text \<open>
  \<open>str.isdigit\<close> and \<open>int\<close> read the Unicode character database of the interpreter. The
  two tables are those of Unicode 14.0.0 (CPython 3.11): the blocks of decimal digits
  (each block is a whole number of runs \<open>0..9\<close>), and the further code points that carry
  a digit value without being decimal (superscripts, circled digits and the like).
\<close>

definition decimal_blocks :: "(nat \<times> nat) list" where
  "decimal_blocks =
    [(48, 57), (1632, 1641), (1776, 1785), (1984, 1993), (2406, 2415), (2534, 2543),
     (2662, 2671), (2790, 2799), (2918, 2927), (3046, 3055), (3174, 3183), (3302, 3311),
     (3430, 3439), (3558, 3567), (3664, 3673), (3792, 3801), (3872, 3881), (4160, 4169),
     (4240, 4249), (6112, 6121), (6160, 6169), (6470, 6479), (6608, 6617), (6784, 6793),
     (6800, 6809), (6992, 7001), (7088, 7097), (7232, 7241), (7248, 7257), (42528, 42537),
     (43216, 43225), (43264, 43273), (43472, 43481), (43504, 43513), (43600, 43609),
     (44016, 44025), (65296, 65305), (66720, 66729), (68912, 68921), (69734, 69743),
     (69872, 69881), (69942, 69951), (70096, 70105), (70384, 70393), (70736, 70745),
     (70864, 70873), (71248, 71257), (71360, 71369), (71472, 71481), (71904, 71913),
     (72016, 72025), (72784, 72793), (73040, 73049), (73120, 73129), (92768, 92777),
     (92864, 92873), (93008, 93017), (120782, 120831), (123200, 123209), (123632, 123641),
     (125264, 125273), (130032, 130041)]"

definition other_digit_blocks :: "(nat \<times> nat) list" where
  "other_digit_blocks =
    [(178, 179), (185, 185), (4969, 4977), (6618, 6618), (8304, 8304), (8308, 8313),
     (8320, 8329), (9312, 9320), (9332, 9340), (9352, 9360), (9450, 9450), (9461, 9469),
     (9471, 9471), (10102, 10110), (10112, 10120), (10122, 10130), (68160, 68163),
     (69216, 69224), (69714, 69722), (127232, 127242)]"

fun in_blocks :: "(nat \<times> nat) list \<Rightarrow> nat \<Rightarrow> bool" where
  "in_blocks [] c = False"
| "in_blocks ((lo, hi) # bs) c = (if lo \<le> c \<and> c \<le> hi then True else in_blocks bs c)"

definition isdecimal_char :: "nat \<Rightarrow> bool" where
  "isdecimal_char c = in_blocks decimal_blocks c"

definition isdigit_char :: "nat \<Rightarrow> bool" where
  "isdigit_char c = (isdecimal_char c \<or> in_blocks other_digit_blocks c)"

definition isdigit :: "pystr \<Rightarrow> bool" where
  \<comment> \<open>\<open>s.isdigit()\<close>: at least one character, and every character a digit.\<close>
  "isdigit s = (s \<noteq> [] \<and> list_all isdigit_char s)"

definition ascii_digit :: "nat \<Rightarrow> bool" where
  "ascii_digit c = (48 \<le> c \<and> c \<le> 57)"

section \<open>Booking intervals and the booking policy\<close>

text \<open>
  A booking interval is a dictionary inside a room document. The handlers read its
  fields with \<open>interval.get(k)\<close>, \<open>interval.get(k, '')\<close> and \<open>interval[k]\<close>, which differ on
  a missing key, so every field is optional: \<open>None\<close> is the missing key.
\<close>

record interval =
  checkIn :: "pystr option"
  checkOut :: "pystr option"
  guestName :: "pystr option"
  guestPhone :: "pystr option"
  guestEmail :: "pystr option"
  notes' :: "pystr option"
  createdAt :: "pystr option"
  updatedAt :: "pystr option"

definition get_str :: "pystr option \<Rightarrow> pystr" where
  \<comment> \<open>\<open>d.get(k, '')\<close>\<close>
  "get_str v = (case v of None \<Rightarrow> [] | Some s \<Rightarrow> s)"

definition truthy :: "pystr option \<Rightarrow> bool" where
  \<comment> \<open>the truth value of \<open>d.get(k)\<close>: a missing key and the empty string are false\<close>
  "truthy v = (case v of None \<Rightarrow> False | Some s \<Rightarrow> s \<noteq> [])"

text \<open>
  \<open>has_duplicate_booking\<close>, the closure of \<open>book_room\<close> over the candidate's \<open>check_in\<close>,
  \<open>check_out\<close> and \<open>guest_name\<close>. An existing interval conflicts when it is the same
  booking (same two dates and same guest), or when both its dates are non-empty and
  \<open>check_in < existing_end and check_out > existing_start\<close>.
\<close>

definition exact_duplicate :: "pystr \<Rightarrow> pystr \<Rightarrow> pystr \<Rightarrow> interval \<Rightarrow> bool" where
  "exact_duplicate check_in check_out guest_name i =
     (checkIn i = Some check_in \<and> checkOut i = Some check_out \<and> guestName i = Some guest_name)"

definition dates_overlap :: "pystr \<Rightarrow> pystr \<Rightarrow> interval \<Rightarrow> bool" where
  "dates_overlap check_in check_out i =
     (let existing_start = get_str (checkIn i); existing_end = get_str (checkOut i)
      in existing_start \<noteq> [] \<and> existing_end \<noteq> [] \<and>
         check_in < existing_end \<and> check_out > existing_start)"

fun has_duplicate_booking :: "pystr \<Rightarrow> pystr \<Rightarrow> pystr \<Rightarrow> interval list \<Rightarrow> bool" where
  "has_duplicate_booking check_in check_out guest_name [] = False"
| "has_duplicate_booking check_in check_out guest_name (i # existing) =
     (if exact_duplicate check_in check_out guest_name i then True
      else if dates_overlap check_in check_out i then True
      else has_duplicate_booking check_in check_out guest_name existing)"

text \<open>
  The conflict test the specification allows as a simplification: the overlap clause
  alone, without the clause for the same booking.
\<close>

fun has_overlap_only :: "pystr \<Rightarrow> pystr \<Rightarrow> interval list \<Rightarrow> bool" where
  "has_overlap_only check_in check_out [] = False"
| "has_overlap_only check_in check_out (i # existing) =
     (if dates_overlap check_in check_out i then True
      else has_overlap_only check_in check_out existing)"

text \<open>
  The availability loop of \<open>get_room_status\<close>: the first interval, in list order, with
  \<open>check_in <= today < check_out\<close> makes the room unavailable and its two dates (read
  with the default \<open>''\<close>) are the current booking. \<open>get_available_rooms\<close> runs the same
  loop and keeps only the flag.
\<close>

definition covers :: "pystr \<Rightarrow> interval \<Rightarrow> bool" where
  "covers today i = (get_str (checkIn i) \<le> today \<and> today < get_str (checkOut i))"

fun room_status_loop :: "interval list \<Rightarrow> pystr \<Rightarrow> bool \<times> (pystr \<times> pystr) option" where
  "room_status_loop [] today = (True, None)"
| "room_status_loop (i # intervals) today =
     (if covers today i then (False, Some (get_str (checkIn i), get_str (checkOut i)))
      else room_status_loop intervals today)"

fun available_loop :: "interval list \<Rightarrow> pystr \<Rightarrow> bool" where
  "available_loop [] today = True"
| "available_loop (i # intervals) today =
     (if covers today i then False else available_loop intervals today)"


section \<open>Room documents\<close>

text \<open>
  The key \<open>_id\<close> of a room document is a string (a caller-supplied or synthesised room
  number) or an \<open>ObjectId\<close> of the database driver, which is twelve bytes written as
  twenty-four hexadecimal digits. \<open>ObjectId(s)\<close> accepts a string of length 24 that
  \<open>bytes.fromhex\<close> can read and raises otherwise; \<open>str\<close> of it is the lower-case
  hexadecimal text.
\<close>

datatype room_id = StrId pystr | ObjId "nat list"

definition is_space :: "nat \<Rightarrow> bool" where
  "is_space c = (c = 32 \<or> (9 \<le> c \<and> c \<le> 13))"

definition hex_val :: "nat \<Rightarrow> nat option" where
  "hex_val c =
     (if 48 \<le> c \<and> c \<le> 57 then Some (c - 48)
      else if 97 \<le> c \<and> c \<le> 102 then Some (c - 87)
      else if 65 \<le> c \<and> c \<le> 70 then Some (c - 55)
      else None)"

fun fromhex :: "pystr \<Rightarrow> nat list option" where
  "fromhex [] = Some []"
| "fromhex [c] = (if is_space c then Some [] else None)"
| "fromhex (c # d # s) =
     (if is_space c then fromhex (d # s)
      else case (hex_val c, hex_val d) of
             (Some h, Some l) \<Rightarrow> map_option (\<lambda>bs. (16 * h + l) # bs) (fromhex s)
           | _ \<Rightarrow> None)"

definition ObjectId :: "pystr \<Rightarrow> room_id option" where
  \<comment> \<open>\<open>None\<close> is the exception \<open>InvalidId\<close>\<close>
  "ObjectId s = (if length s = 24 then map_option ObjId (fromhex s) else None)"

definition hex_digit :: "nat \<Rightarrow> nat" where
  "hex_digit n = (if n < 10 then 48 + n else 87 + n)"

definition hexlify :: "nat list \<Rightarrow> pystr" where
  "hexlify bs = concat (map (\<lambda>b. [hex_digit (b div 16), hex_digit (b mod 16)]) bs)"

definition id_str :: "room_id \<Rightarrow> pystr" where
  \<comment> \<open>\<open>str(id_value)\<close>\<close>
  "id_str i = (case i of StrId s \<Rightarrow> s | ObjId bs \<Rightarrow> hexlify bs)"

text \<open>
  A room document. The handlers test the presence of \<open>bookedIntervals\<close>, so that field
  is optional; the other fields are the ones \<open>add_room\<close> writes. A time stamp is the
  text the clock call returns.
\<close>

record room =
  doc_id :: room_id
  name :: pystr
  price :: rat
  persons :: int
  description :: pystr
  amenities :: "pystr list"
  bookedIntervals :: "interval list option"
  created_at :: pystr
  updated_at :: pystr

definition get_intervals :: "room \<Rightarrow> interval list" where
  \<comment> \<open>\<open>room.get('bookedIntervals', [])\<close>\<close>
  "get_intervals r = (case bookedIntervals r of None \<Rightarrow> [] | Some ivs \<Rightarrow> ivs)"

record api_room =
  api_room_id :: pystr
  api_id :: pystr
  api_name :: pystr
  api_price :: rat
  api_capacity :: int
  api_persons :: int
  api_description :: pystr
  api_amenities :: "pystr list"
  api_bookedIntervals :: "interval list"
  api_created_at :: "pystr option"
  api_updated_at :: "pystr option"

definition convert_room_for_api :: "room \<Rightarrow> api_room" where
  "convert_room_for_api r =
     \<lparr>api_room_id = id_str (doc_id r), api_id = id_str (doc_id r), api_name = name r,
      api_price = price r, api_capacity = persons r, api_persons = persons r,
      api_description = description r, api_amenities = amenities r,
      api_bookedIntervals = get_intervals r,
      api_created_at = (if created_at r \<noteq> [] then Some (created_at r) else None),
      api_updated_at = (if updated_at r \<noteq> [] then Some (updated_at r) else None)\<rparr>"

section \<open>The store and its environment\<close>

text \<open>
  The module's globals: \<open>rooms_collection\<close> is \<open>None\<close> in fallback mode and the
  collection's documents otherwise; \<open>fallback_rooms\<close> is the in-memory list; \<open>json_file\<close>
  is the content of \<open>rooms_data.json\<close>.

  What a request reads from outside is its environment: the clock (one reading for the
  whole request), whether the calls to the database succeed (they raise otherwise),
  whether the file can be written, the identifier \<open>ObjectId()\<close> generates, and the array
  index the database binds the positional operator \<open>$\<close> to, which the source leaves to
  the server.
\<close>

record store =
  rooms_collection :: "room list option"
  fallback_rooms :: "room list"
  json_file :: "room list"

record env =
  now :: pystr
  utcnow :: pystr
  today :: pystr
  db_ok :: bool
  file_ok :: bool
  new_object_id :: "nat list"
  positional :: "interval list \<Rightarrow> pystr \<Rightarrow> pystr \<Rightarrow> nat"

definition to_json :: "room \<Rightarrow> room" where
  \<comment> \<open>\<open>MongoJSONEncoder\<close>: an \<open>ObjectId\<close> is written as its string\<close>
  "to_json r = r\<lparr>doc_id := StrId (id_str (doc_id r))\<rparr>"

definition save_fallback_data :: "env \<Rightarrow> store \<Rightarrow> store" where
  "save_fallback_data e st =
     (if file_ok e then st\<lparr>json_file := map to_json (fallback_rooms st)\<rparr> else st)"

definition sync_mongodb_to_json :: "env \<Rightarrow> store \<Rightarrow> store" where
  "sync_mongodb_to_json e st =
     (case rooms_collection st of
        None \<Rightarrow> st
      | Some coll \<Rightarrow>
          if db_ok e \<and> file_ok e then st\<lparr>json_file := map to_json coll\<rparr> else st)"

text \<open>The first element that satisfies a test, replaced: a dictionary mutated in place.\<close>

fun update_first :: "('a \<Rightarrow> bool) \<Rightarrow> ('a \<Rightarrow> 'a) \<Rightarrow> 'a list \<Rightarrow> 'a list" where
  "update_first P f [] = []"
| "update_first P f (x # xs) = (if P x then f x # xs else x # update_first P f xs)"

definition fallback_find :: "store \<Rightarrow> pystr \<Rightarrow> room option" where
  \<comment> \<open>\<open>next((r for r in fallback_rooms if r.get('_id') == room_id), None)\<close>\<close>
  "fallback_find st room_id = find (\<lambda>r. doc_id r = StrId room_id) (fallback_rooms st)"

subsection \<open>The database driver\<close>

definition find_one :: "room list \<Rightarrow> room_id \<Rightarrow> room option" where
  "find_one coll i = find (\<lambda>r. doc_id r = i) coll"

definition replace_one_upsert :: "room_id \<Rightarrow> room \<Rightarrow> room list \<Rightarrow> room list" where
  "replace_one_upsert i r coll =
     (case find_one coll i of
        None \<Rightarrow> coll @ [r]
      | Some _ \<Rightarrow> update_first (\<lambda>d. doc_id d = i) (\<lambda>_. r) coll)"

text \<open>
  \<open>update_one\<close> changes the first document the filter selects. \<open>matched_count\<close> counts
  the selected document, \<open>modified_count\<close> counts it only when the update changed it.
\<close>

record update_result =
  matched_count :: nat
  modified_count :: nat
  updated_coll :: "room list"

definition update_one :: "(room \<Rightarrow> bool) \<Rightarrow> (room \<Rightarrow> room) \<Rightarrow> room list \<Rightarrow> update_result" where
  "update_one sel upd coll =
     (case find sel coll of
        None \<Rightarrow> \<lparr>matched_count = 0, modified_count = 0, updated_coll = coll\<rparr>
      | Some d \<Rightarrow>
          \<lparr>matched_count = 1, modified_count = (if upd d = d then 0 else 1),
           updated_coll = update_first sel upd coll\<rparr>)"

text \<open>
  The lookup the database branches share: by the string, then by the \<open>ObjectId\<close> the
  string denotes. The read handlers and \<open>update_room\<close> ignore an invalid identifier; the
  booking handlers answer it with 404 and keep the filter that selected the room.
\<close>

definition mongo_find :: "room list \<Rightarrow> pystr \<Rightarrow> room option" where
  "mongo_find coll room_id =
     (case find_one coll (StrId room_id) of
        Some r \<Rightarrow> Some r
      | None \<Rightarrow> (case ObjectId room_id of None \<Rightarrow> None | Some obj_id \<Rightarrow> find_one coll obj_id))"

definition room_id_filter :: "room list \<Rightarrow> pystr \<Rightarrow> (room option \<times> room_id) option" where
  \<comment> \<open>\<open>None\<close>: \<open>ObjectId(room_id)\<close> raised, the handler returns 404\<close>
  "room_id_filter coll room_id =
     (case find_one coll (StrId room_id) of
        Some r \<Rightarrow> Some (Some r, StrId room_id)
      | None \<Rightarrow>
          (case ObjectId room_id of
             None \<Rightarrow> None
           | Some obj_id \<Rightarrow> Some (find_one coll obj_id, obj_id)))"

section \<open>Responses\<close>

datatype errmsg = Err string | Room_exists pystr | Exception_text

record room_status =
  rs_room_id :: pystr
  rs_available :: bool
  rs_status :: string
  rs_currentBooking :: "(pystr \<times> pystr) option"

datatype payload = Rooms "api_room list" | Room api_room | Booking interval | Status room_status

text \<open>
  The JSON envelope and the HTTP status. \<open>count\<close> is the length of the list in \<open>data\<close>
  and is not kept apart.
\<close>

record response =
  status :: nat
  success :: bool
  message :: "string option"
  error :: "errmsg option"
  data :: "payload option"
  source :: "string option"

definition failure :: "nat \<Rightarrow> errmsg \<Rightarrow> response" where
  "failure code e =
     \<lparr>status = code, success = False, message = None, error = Some e, data = None,
      source = None\<rparr>"

definition succeed :: "nat \<Rightarrow> string option \<Rightarrow> payload option \<Rightarrow> string option \<Rightarrow> response" where
  "succeed code msg d src =
     \<lparr>status = code, success = True, message = msg, error = None, data = d, source = src\<rparr>"

section \<open>Read handlers\<close>

definition get_public_rooms :: "env \<Rightarrow> store \<Rightarrow> response" where
  "get_public_rooms e st =
     (case rooms_collection st of
        None \<Rightarrow>
          succeed 200 None (Some (Rooms (map convert_room_for_api (fallback_rooms st))))
            (Some ''fallback'')
      | Some coll \<Rightarrow>
          if db_ok e
          then succeed 200 None (Some (Rooms (map convert_room_for_api coll))) (Some ''mongodb'')
          else if fallback_rooms st \<noteq> []
          then succeed 200 None (Some (Rooms (map convert_room_for_api (fallback_rooms st))))
                 (Some ''fallback_error_recovery'')
          else failure 500 Exception_text)"

definition get_room_status :: "env \<Rightarrow> store \<Rightarrow> pystr \<Rightarrow> response" where
  "get_room_status e st room_id =
     (case rooms_collection st of
        Some coll \<Rightarrow>
          if \<not> db_ok e then failure 500 Exception_text
          else (case mongo_find coll room_id of
                  None \<Rightarrow> failure 404 (Err ''Room not found'')
                | Some r \<Rightarrow>
                    (case room_status_loop (get_intervals r) (today e) of
                       (avail, cur) \<Rightarrow>
                         succeed 200 None
                           (Some (Status \<lparr>rs_room_id = room_id, rs_available = avail,
                              rs_status = (if avail then ''available'' else ''booked''),
                              rs_currentBooking = cur\<rparr>)) None))
      | None \<Rightarrow>
          (case fallback_find st room_id of
             None \<Rightarrow> failure 404 (Err ''Room not found'')
           | Some r \<Rightarrow>
               (case room_status_loop (get_intervals r) (today e) of
                  (avail, cur) \<Rightarrow>
                    succeed 200 None
                      (Some (Status \<lparr>rs_room_id = room_id, rs_available = avail,
                         rs_status = (if avail then ''available'' else ''booked''),
                         rs_currentBooking = cur\<rparr>)) None)))"

definition get_available_rooms :: "env \<Rightarrow> store \<Rightarrow> response" where
  "get_available_rooms e st =
     (case rooms_collection st of
        Some coll \<Rightarrow>
          if \<not> db_ok e then failure 500 Exception_text
          else succeed 200 None
                 (Some (Rooms (map convert_room_for_api
                    (filter (\<lambda>r. available_loop (get_intervals r) (today e)) coll)))) None
      | None \<Rightarrow>
          succeed 200 None
            (Some (Rooms (map convert_room_for_api
               (filter (\<lambda>r. available_loop (get_intervals r) (today e)) (fallback_rooms st)))))
            None)"

section \<open>Booking handlers\<close>

text \<open>
  The JSON body of the three booking requests; \<open>None\<close> is a key the body does not have.
\<close>

record booking_request =
  req_checkIn :: "pystr option"
  req_checkOut :: "pystr option"
  req_guestName :: "pystr option"
  req_guestPhone :: "pystr option"
  req_guestEmail :: "pystr option"
  req_notes :: "pystr option"

definition new_interval :: "env \<Rightarrow> booking_request \<Rightarrow> interval" where
  "new_interval e d =
     \<lparr>checkIn = Some (get_str (req_checkIn d)), checkOut = Some (get_str (req_checkOut d)),
      guestName = Some (get_str (req_guestName d)),
      guestPhone = Some (get_str (req_guestPhone d)),
      guestEmail = Some (get_str (req_guestEmail d)),
      notes' = Some (get_str (req_notes d)),
      createdAt = Some (now e), updatedAt = None\<rparr>"

definition push_interval :: "interval \<Rightarrow> pystr \<Rightarrow> room \<Rightarrow> room" where
  \<comment> \<open>the append and the new \<open>updated_at\<close>; \<open>$push\<close> creates a missing array as the
      fallback branch does\<close>
  "push_interval iv t r = r\<lparr>bookedIntervals := Some (get_intervals r @ [iv]), updated_at := t\<rparr>"

definition book_room :: "env \<Rightarrow> store \<Rightarrow> pystr \<Rightarrow> booking_request \<Rightarrow> response \<times> store" where
  "book_room e st room_id d =
     (if \<not> truthy (req_checkIn d) \<or> \<not> truthy (req_checkOut d) \<or> \<not> truthy (req_guestName d)
      then (failure 400 (Err ''Missing required fields: checkIn, checkOut, guestName''), st)
      else
        let check_in = get_str (req_checkIn d); check_out = get_str (req_checkOut d);
            guest_name = get_str (req_guestName d); iv = new_interval e d
        in case rooms_collection st of
             None \<Rightarrow>
               (case fallback_find st room_id of
                  None \<Rightarrow> (failure 404 (Err ''Room not found''), st)
                | Some r \<Rightarrow>
                    if has_duplicate_booking check_in check_out guest_name (get_intervals r)
                    then (failure 409
                            (Err ''Booking already exists or dates overlap with existing booking''),
                          st)
                    else (succeed 200 (Some ''Booking created successfully'') (Some (Booking iv))
                            None,
                          save_fallback_data e
                            (st\<lparr>fallback_rooms :=
                                  update_first (\<lambda>r. doc_id r = StrId room_id)
                                    (push_interval iv (now e)) (fallback_rooms st)\<rparr>)))
           | Some coll \<Rightarrow>
               if \<not> db_ok e then (failure 500 Exception_text, st)
               else
                 (case room_id_filter coll room_id of
                    None \<Rightarrow> (failure 404 (Err ''Room not found''), st)
                  | Some (None, flt) \<Rightarrow> (failure 500 Exception_text, st)
                  | Some (Some r, flt) \<Rightarrow>
                      if has_duplicate_booking check_in check_out guest_name (get_intervals r)
                      then (failure 409
                              (Err ''Booking already exists or dates overlap with existing booking''),
                            st)
                      else
                        let res = update_one (\<lambda>r. doc_id r = flt) (push_interval iv (now e)) coll;
                            st' = st\<lparr>rooms_collection := Some (updated_coll res)\<rparr>
                        in if modified_count res = 0
                           then (failure 500 (Err ''Failed to update room''), st')
                           else (succeed 200 (Some ''Booking created successfully'')
                                   (Some (Booking iv)) None,
                                 sync_mongodb_to_json e st')))"

text \<open>
  \<open>interval['checkIn'] == check_in and interval['checkOut'] == check_out\<close>: a missing key
  raises \<open>KeyError\<close> (\<open>None\<close>), and \<open>and\<close> reads the second key only when the first
  comparison holds.
\<close>

definition pair_matches :: "pystr \<Rightarrow> pystr \<Rightarrow> interval \<Rightarrow> bool option" where
  "pair_matches check_in check_out i =
     (case checkIn i of
        None \<Rightarrow> None
      | Some a \<Rightarrow>
          if a = check_in
          then (case checkOut i of None \<Rightarrow> None | Some b \<Rightarrow> Some (b = check_out))
          else Some False)"

fun remove_matching :: "pystr \<Rightarrow> pystr \<Rightarrow> interval list \<Rightarrow> interval list option" where
  "remove_matching check_in check_out [] = Some []"
| "remove_matching check_in check_out (i # intervals) =
     (case pair_matches check_in check_out i of
        None \<Rightarrow> None
      | Some m \<Rightarrow>
          (case remove_matching check_in check_out intervals of
             None \<Rightarrow> None
           | Some rest \<Rightarrow> Some (if m then rest else i # rest)))"

definition pull_matches :: "pystr \<Rightarrow> pystr \<Rightarrow> interval \<Rightarrow> bool" where
  \<comment> \<open>the condition of \<open>$pull\<close>, applied by the database to each element of the array\<close>
  "pull_matches check_in check_out i = (checkIn i = Some check_in \<and> checkOut i = Some check_out)"

definition pull_intervals :: "pystr \<Rightarrow> pystr \<Rightarrow> pystr \<Rightarrow> room \<Rightarrow> room" where
  "pull_intervals check_in check_out t r =
     r\<lparr>bookedIntervals :=
         map_option (filter (\<lambda>i. \<not> pull_matches check_in check_out i)) (bookedIntervals r),
       updated_at := t\<rparr>"

definition unbook_room :: "env \<Rightarrow> store \<Rightarrow> pystr \<Rightarrow> booking_request \<Rightarrow> response \<times> store" where
  "unbook_room e st room_id d =
     (if \<not> truthy (req_checkIn d) \<or> \<not> truthy (req_checkOut d)
      then (failure 400 (Err ''Missing required fields: checkIn, checkOut''), st)
      else
        let check_in = get_str (req_checkIn d); check_out = get_str (req_checkOut d)
        in case rooms_collection st of
             None \<Rightarrow>
               (case fallback_find st room_id of
                  None \<Rightarrow> (failure 404 (Err ''Room not found''), st)
                | Some r \<Rightarrow>
                    (case bookedIntervals r of
                       None \<Rightarrow> (succeed 200 (Some ''Booking cancelled successfully'') None None, st)
                     | Some ivs \<Rightarrow>
                         (case remove_matching check_in check_out ivs of
                            None \<Rightarrow> (failure 500 Exception_text, st)
                          | Some ivs' \<Rightarrow>
                              let st' = st\<lparr>fallback_rooms :=
                                     update_first (\<lambda>r. doc_id r = StrId room_id)
                                       (\<lambda>r. r\<lparr>bookedIntervals := Some ivs'\<rparr>) (fallback_rooms st)\<rparr>
                              in if length ivs' = length ivs
                                 then (failure 404 (Err ''Booking not found''), st')
                                 else (succeed 200 (Some ''Booking cancelled successfully'') None
                                         None,
                                       save_fallback_data e
                                         (st'\<lparr>fallback_rooms :=
                                               update_first (\<lambda>r. doc_id r = StrId room_id)
                                                 (\<lambda>r. r\<lparr>updated_at := now e\<rparr>)
                                                 (fallback_rooms st')\<rparr>)))))
           | Some coll \<Rightarrow>
               if \<not> db_ok e then (failure 500 Exception_text, st)
               else
                 (case room_id_filter coll room_id of
                    None \<Rightarrow> (failure 404 (Err ''Room not found''), st)
                  | Some (found, flt) \<Rightarrow>
                      let res = update_one (\<lambda>r. doc_id r = flt)
                                  (pull_intervals check_in check_out (now e)) coll;
                          st' = st\<lparr>rooms_collection := Some (updated_coll res)\<rparr>
                      in if modified_count res = 0
                         then (failure 404 (Err ''Booking not found or failed to update''), st')
                         else (succeed 200 (Some ''Booking cancelled successfully'') None None,
                               sync_mongodb_to_json e st')))"

text \<open>
  The \<open>for ... else\<close> loop of \<open>update_booking\<close>: the first interval with the pair is
  overwritten and the loop stops; without a match the \<open>else\<close> branch answers 404.
\<close>

datatype 'a scan = Found 'a | Not_found | Key_error

definition set_guest_fields ::
  "pystr \<Rightarrow> pystr \<Rightarrow> pystr \<Rightarrow> pystr \<Rightarrow> pystr \<Rightarrow> interval \<Rightarrow> interval" where
  "set_guest_fields guest_name guest_phone guest_email notes_text t i =
     i\<lparr>guestName := Some guest_name, guestPhone := Some guest_phone,
       guestEmail := Some guest_email, notes' := Some notes_text, updatedAt := Some t\<rparr>"

fun update_first_match ::
  "pystr \<Rightarrow> pystr \<Rightarrow> (interval \<Rightarrow> interval) \<Rightarrow> interval list \<Rightarrow> interval list scan" where
  "update_first_match check_in check_out f [] = Not_found"
| "update_first_match check_in check_out f (i # intervals) =
     (case pair_matches check_in check_out i of
        None \<Rightarrow> Key_error
      | Some True \<Rightarrow> Found (f i # intervals)
      | Some False \<Rightarrow>
          (case update_first_match check_in check_out f intervals of
             Found rest \<Rightarrow> Found (i # rest)
           | Not_found \<Rightarrow> Not_found
           | Key_error \<Rightarrow> Key_error))"

text \<open>
  The database branch: the filter asks for an element with the check-in date and for an
  element with the check-out date, and \<open>$set\<close> writes the guest fields of the element at
  the index the server binds \<open>$\<close> to.
\<close>

definition booking_filter :: "room_id \<Rightarrow> pystr \<Rightarrow> pystr \<Rightarrow> room \<Rightarrow> bool" where
  "booking_filter flt check_in check_out r =
     (doc_id r = flt \<and> list_ex (\<lambda>i. checkIn i = Some check_in) (get_intervals r) \<and>
      list_ex (\<lambda>i. checkOut i = Some check_out) (get_intervals r))"

definition set_positional :: "env \<Rightarrow> pystr \<Rightarrow> pystr \<Rightarrow> (interval \<Rightarrow> interval) \<Rightarrow> room \<Rightarrow> room" where
  "set_positional e check_in check_out f r =
     (let ivs = get_intervals r; p = positional e ivs check_in check_out
      in r\<lparr>bookedIntervals := Some (if p < length ivs then ivs[p := f (ivs ! p)] else ivs),
           updated_at := now e\<rparr>)"

definition update_booking :: "env \<Rightarrow> store \<Rightarrow> pystr \<Rightarrow> booking_request \<Rightarrow> response \<times> store" where
  "update_booking e st room_id d =
     (if \<not> truthy (req_checkIn d) \<or> \<not> truthy (req_checkOut d) \<or> \<not> truthy (req_guestName d)
      then (failure 400 (Err ''Missing required fields: checkIn, checkOut, guestName''), st)
      else
        let check_in = get_str (req_checkIn d); check_out = get_str (req_checkOut d);
            f = set_guest_fields (get_str (req_guestName d)) (get_str (req_guestPhone d))
                  (get_str (req_guestEmail d)) (get_str (req_notes d)) (now e)
        in case rooms_collection st of
             None \<Rightarrow>
               (case fallback_find st room_id of
                  None \<Rightarrow> (failure 404 (Err ''Room not found''), st)
                | Some r \<Rightarrow>
                    (case bookedIntervals r of
                       None \<Rightarrow> (succeed 200 (Some ''Booking updated successfully'') None None, st)
                     | Some ivs \<Rightarrow>
                         (case update_first_match check_in check_out f ivs of
                            Key_error \<Rightarrow> (failure 500 Exception_text, st)
                          | Not_found \<Rightarrow> (failure 404 (Err ''Booking not found''), st)
                          | Found ivs' \<Rightarrow>
                              (succeed 200 (Some ''Booking updated successfully'') None None,
                               save_fallback_data e
                                 (st\<lparr>fallback_rooms :=
                                       update_first (\<lambda>r. doc_id r = StrId room_id)
                                         (\<lambda>r. r\<lparr>bookedIntervals := Some ivs',
                                                updated_at := now e\<rparr>)
                                         (fallback_rooms st)\<rparr>)))))
           | Some coll \<Rightarrow>
               if \<not> db_ok e then (failure 500 Exception_text, st)
               else
                 (case room_id_filter coll room_id of
                    None \<Rightarrow> (failure 404 (Err ''Room not found''), st)
                  | Some (found, flt) \<Rightarrow>
                      let res = update_one (booking_filter flt check_in check_out)
                                  (set_positional e check_in check_out f) coll;
                          st' = st\<lparr>rooms_collection := Some (updated_coll res)\<rparr>
                      in if matched_count res = 0
                         then (failure 404 (Err ''Booking not found''), st')
                         else (succeed 200 (Some ''Booking updated successfully'') None None,
                               sync_mongodb_to_json e st')))"

section \<open>Room handlers\<close>

text \<open>
  The JSON body of a create or update request. \<open>float(...)\<close> and \<open>int(...)\<close> are applied
  to what the body carries for \<open>price\<close>, \<open>capacity\<close> and \<open>persons\<close>; the body is kept as
  the outcome of that conversion, a number or the exception.

  \<open>custom_id\<close> is tested for truth and then asked \<open>.isdigit()\<close>, which only a string has:
  the body's value is a string, or a value of another JSON type, kept as its truth value
  (\<open>null\<close>, \<open>false\<close>, \<open>0\<close> and the empty array and object are false).
\<close>

datatype 'a conv = Converts 'a | Raises

datatype json_id = Text pystr | Not_text bool

record room_request =
  req_name :: "pystr option"
  req_price :: "rat conv option"
  req_capacity :: "int conv option"
  req_persons :: "int conv option"
  req_description :: "pystr option"
  req_amenities :: "pystr list option"
  custom_id :: "json_id option"

text \<open>
  The identifier \<open>add_room\<close> synthesises in fallback mode: one more than the largest of
  the stored identifiers that are digit strings, as four digits at least. \<open>int\<close> reads
  decimal digits of any script and raises \<open>ValueError\<close> on a digit that is not decimal, or
  on more than 4300 digits (the interpreter's default limit, which \<open>str\<close> of an integer
  has as well); \<open>int\<close> of an \<open>ObjectId\<close> raises \<open>TypeError\<close>.
\<close>

fun block_value :: "(nat \<times> nat) list \<Rightarrow> nat \<Rightarrow> nat option" where
  "block_value [] c = None"
| "block_value ((lo, hi) # bs) c =
     (if lo \<le> c \<and> c \<le> hi then Some ((c - lo) mod 10) else block_value bs c)"

fun digits_value :: "nat \<Rightarrow> pystr \<Rightarrow> nat option" where
  "digits_value acc [] = Some acc"
| "digits_value acc (c # s) =
     (case block_value decimal_blocks c of
        None \<Rightarrow> None
      | Some v \<Rightarrow> digits_value (10 * acc + v) s)"

definition py_int :: "pystr \<Rightarrow> nat option" where
  "py_int s = (if length s > 4300 then None else digits_value 0 s)"

fun nat_digits :: "nat \<Rightarrow> pystr" where
  "nat_digits n = (if n < 10 then [48 + n] else nat_digits (n div 10) @ [48 + n mod 10])"

declare nat_digits.simps [simp del]

definition py_str :: "nat \<Rightarrow> pystr option" where
  "py_str n = (let s = nat_digits n in if length s > 4300 then None else Some s)"

definition zfill :: "nat \<Rightarrow> pystr \<Rightarrow> pystr" where
  "zfill w s = replicate (w - length s) 48 @ s"

fun numeric_ids :: "room list \<Rightarrow> nat list option" where
  "numeric_ids [] = Some []"
| "numeric_ids (r # rs) =
     (if isdigit (id_str (doc_id r))
      then (case doc_id r of
              ObjId _ \<Rightarrow> None
            | StrId s \<Rightarrow>
                (case py_int s of
                   None \<Rightarrow> None
                 | Some n \<Rightarrow> map_option (\<lambda>ns. n # ns) (numeric_ids rs)))
      else numeric_ids rs)"

definition new_id :: "room list \<Rightarrow> pystr option" where
  \<comment> \<open>\<open>str(max(numeric_ids + [0]) + 1).zfill(4)\<close>; \<open>None\<close> is an exception\<close>
  "new_id rooms =
     (case numeric_ids rooms of
        None \<Rightarrow> None
      | Some ns \<Rightarrow> map_option (zfill 4) (py_str (fold max (ns @ [0]) 0 + 1)))"

definition has_required_fields :: "room_request \<Rightarrow> bool" where
  "has_required_fields d =
     (req_name d \<noteq> None \<and> req_price d \<noteq> None \<and> req_capacity d \<noteq> None \<and>
      req_description d \<noteq> None \<and> req_amenities d \<noteq> None)"

text \<open>
  The validation of the identifier,
  \<open>if custom_id: if not custom_id.isdigit() or len(custom_id) != 4: return ... 400\<close>.
  A false value skips it; a true value that is not a string has no \<open>isdigit\<close> and the
  call raises \<open>AttributeError\<close>, which the handler answers with 500; a non-empty string
  is rejected or passes. After the validation, \<open>if custom_id:\<close> holds only for a non-empty
  string, which \<open>supplied_id\<close> returns.
\<close>

datatype id_check = Id_raises | Id_rejected | Id_passes

definition check_custom_id :: "json_id option \<Rightarrow> id_check" where
  "check_custom_id v =
     (case v of
        None \<Rightarrow> Id_passes
      | Some (Not_text b) \<Rightarrow> (if b then Id_raises else Id_passes)
      | Some (Text s) \<Rightarrow>
          (if s \<noteq> [] then (if \<not> isdigit s \<or> length s \<noteq> 4 then Id_rejected else Id_passes)
           else Id_passes))"

definition supplied_id :: "json_id option \<Rightarrow> pystr option" where
  "supplied_id v =
     (case v of Some (Text s) \<Rightarrow> (if s \<noteq> [] then Some s else None) | _ \<Rightarrow> None)"

definition new_room :: "env \<Rightarrow> room_request \<Rightarrow> rat \<Rightarrow> int \<Rightarrow> room_id \<Rightarrow> room" where
  "new_room e d p c i =
     \<lparr>doc_id = i, name = get_str (req_name d), price = p, persons = c,
      description = get_str (req_description d),
      amenities = (case req_amenities d of None \<Rightarrow> [] | Some a \<Rightarrow> a),
      bookedIntervals = Some [], created_at = utcnow e, updated_at = utcnow e\<rparr>"

definition add_room :: "env \<Rightarrow> store \<Rightarrow> room_request \<Rightarrow> response \<times> store" where
  "add_room e st d =
     (if \<not> has_required_fields d then (failure 400 (Err ''Missing required fields''), st)
      else
        (case check_custom_id (custom_id d) of
           Id_raises \<Rightarrow> (failure 500 Exception_text, st)
         | Id_rejected \<Rightarrow>
             (failure 400 (Err ''Room ID must be exactly 4 digits (e.g., 0101, 0201)''), st)
         | Id_passes \<Rightarrow>
             (case (req_price d, req_capacity d) of
                (Some (Converts p), Some (Converts c)) \<Rightarrow>
                  (case rooms_collection st of
                     None \<Rightarrow>
                       (case (case supplied_id (custom_id d) of
                                Some s \<Rightarrow> Some s
                              | None \<Rightarrow> new_id (fallback_rooms st)) of
                          None \<Rightarrow> (failure 500 Exception_text, st)
                        | Some i \<Rightarrow>
                            (case fallback_find st i of
                               Some existing \<Rightarrow> (failure 400 (Room_exists i), st)
                             | None \<Rightarrow>
                                 (succeed 201 (Some ''Room added successfully'')
                                    (Some (Room (convert_room_for_api
                                       (new_room e d p c (StrId i))))) None,
                                  save_fallback_data e
                                    (st\<lparr>fallback_rooms :=
                                          fallback_rooms st @ [new_room e d p c (StrId i)]\<rparr>))))
                   | Some coll \<Rightarrow>
                       if \<not> db_ok e then (failure 500 Exception_text, st)
                       else
                         (case supplied_id (custom_id d) of
                            Some s \<Rightarrow>
                              (case find_one coll (StrId s) of
                                 Some existing \<Rightarrow> (failure 400 (Room_exists s), st)
                               | None \<Rightarrow>
                                   (succeed 201 (Some ''Room added successfully'')
                                      (Some (Room (convert_room_for_api
                                         (new_room e d p c (StrId s))))) None,
                                    sync_mongodb_to_json e
                                      (st\<lparr>rooms_collection :=
                                            Some (replace_one_upsert (StrId s)
                                                    (new_room e d p c (StrId s)) coll)\<rparr>)))
                          | None \<Rightarrow>
                              (succeed 201 (Some ''Room added successfully'')
                                 (Some (Room (convert_room_for_api
                                    (new_room e d p c (ObjId (new_object_id e)))))) None,
                               sync_mongodb_to_json e
                                 (st\<lparr>rooms_collection :=
                                       Some (replace_one_upsert (ObjId (new_object_id e))
                                               (new_room e d p c (ObjId (new_object_id e)))
                                               coll)\<rparr>))))
              | _ \<Rightarrow> (failure 500 Exception_text, st))))"

text \<open>
  \<open>update_room\<close> assigns the fields the body has, in the order of the source, and an
  assignment whose conversion raises ends the sequence. The result is the room after the
  assignments that ran, and whether all of them ran. The fallback branch assigns to the
  stored dictionary itself and does not read \<open>persons\<close>; the database branch assigns to a
  copy.
\<close>

definition set_opt :: "'a option \<Rightarrow> ('a \<Rightarrow> room \<Rightarrow> room) \<Rightarrow> room \<Rightarrow> room" where
  "set_opt v f r = (case v of None \<Rightarrow> r | Some x \<Rightarrow> f x r)"

definition set_conv :: "'a conv option \<Rightarrow> ('a \<Rightarrow> room \<Rightarrow> room) \<Rightarrow> room \<Rightarrow> room option" where
  "set_conv v f r =
     (case v of None \<Rightarrow> Some r | Some Raises \<Rightarrow> None | Some (Converts x) \<Rightarrow> Some (f x r))"

definition assign_fields :: "bool \<Rightarrow> room_request \<Rightarrow> room \<Rightarrow> room \<times> bool" where
  "assign_fields with_persons d r =
     (let r1 = set_opt (req_name d) (\<lambda>x r. r\<lparr>name := x\<rparr>) r
      in case set_conv (req_price d) (\<lambda>x r. r\<lparr>price := x\<rparr>) r1 of
           None \<Rightarrow> (r1, False)
         | Some r2 \<Rightarrow>
             (case set_conv (req_capacity d) (\<lambda>x r. r\<lparr>persons := x\<rparr>) r2 of
                None \<Rightarrow> (r2, False)
              | Some r3 \<Rightarrow>
                  (case (if with_persons
                         then set_conv (req_persons d) (\<lambda>x r. r\<lparr>persons := x\<rparr>) r3
                         else Some r3) of
                     None \<Rightarrow> (r3, False)
                   | Some r4 \<Rightarrow>
                       (set_opt (req_amenities d) (\<lambda>x r. r\<lparr>amenities := x\<rparr>)
                          (set_opt (req_description d) (\<lambda>x r. r\<lparr>description := x\<rparr>) r4),
                        True))))"

definition update_room :: "env \<Rightarrow> store \<Rightarrow> pystr \<Rightarrow> room_request \<Rightarrow> response \<times> store" where
  "update_room e st room_id d =
     (case rooms_collection st of
        None \<Rightarrow>
          (case fallback_find st room_id of
             None \<Rightarrow> (failure 404 (Err ''Room not found''), st)
           | Some r \<Rightarrow>
               (case assign_fields False d r of
                  (r', False) \<Rightarrow>
                    (failure 500 Exception_text,
                     st\<lparr>fallback_rooms :=
                          update_first (\<lambda>r. doc_id r = StrId room_id) (\<lambda>_. r')
                            (fallback_rooms st)\<rparr>)
                | (r', True) \<Rightarrow>
                    (succeed 200 (Some ''Room updated successfully'')
                       (Some (Room (convert_room_for_api (r'\<lparr>updated_at := utcnow e\<rparr>)))) None,
                     save_fallback_data e
                       (st\<lparr>fallback_rooms :=
                             update_first (\<lambda>r. doc_id r = StrId room_id)
                               (\<lambda>_. r'\<lparr>updated_at := utcnow e\<rparr>) (fallback_rooms st)\<rparr>))))
      | Some coll \<Rightarrow>
          if \<not> db_ok e then (failure 500 Exception_text, st)
          else
            (case mongo_find coll room_id of
               None \<Rightarrow> (failure 404 (Err ''Room not found''), st)
             | Some existing_room \<Rightarrow>
                 (case assign_fields True d existing_room of
                    (r', False) \<Rightarrow> (failure 500 Exception_text, st)
                  | (r', True) \<Rightarrow>
                      (succeed 200 (Some ''Room updated successfully'')
                         (Some (Room (convert_room_for_api (r'\<lparr>updated_at := utcnow e\<rparr>))))
                         None,
                       sync_mongodb_to_json e
                         (st\<lparr>rooms_collection :=
                               Some (replace_one_upsert (doc_id existing_room)
                                       (r'\<lparr>updated_at := utcnow e\<rparr>) coll)\<rparr>)))))"

text \<open>
  The partial update as the specification words it: a field the request has takes the
  request's value, a field it does not have keeps the stored one. Stated apart from
  \<open>assign_fields\<close>, to compare the two.
\<close>

definition given :: "'a option \<Rightarrow> 'a \<Rightarrow> 'a" where
  "given v old = (case v of None \<Rightarrow> old | Some x \<Rightarrow> x)"

definition given_conv :: "'a conv option \<Rightarrow> 'a \<Rightarrow> 'a" where
  "given_conv v old = (case v of Some (Converts x) \<Rightarrow> x | _ \<Rightarrow> old)"


section \<open>Example data\<close>

text \<open>A room, a store in each mode and requests, for the concrete instances below.\<close>

definition booking :: "string \<Rightarrow> string \<Rightarrow> string \<Rightarrow> interval" where
  "booking a b g =
     \<lparr>checkIn = Some (str a), checkOut = Some (str b), guestName = Some (str g),
      guestPhone = Some [], guestEmail = Some [], notes' = Some [],
      createdAt = Some (str ''2024-01-02T08:00:00''), updatedAt = None\<rparr>"

definition request :: "string \<Rightarrow> string \<Rightarrow> string \<Rightarrow> booking_request" where
  "request a b g =
     \<lparr>req_checkIn = Some (str a), req_checkOut = Some (str b), req_guestName = Some (str g),
      req_guestPhone = None, req_guestEmail = None, req_notes = None\<rparr>"

definition example_room :: "interval list option \<Rightarrow> room" where
  "example_room ivs =
     \<lparr>doc_id = StrId (str ''0101''), name = str ''Lotus'', price = 500, persons = 2,
      description = str ''Garden view'', amenities = [str ''wifi''], bookedIntervals = ivs,
      created_at = str ''2024-01-01T00:00:00'', updated_at = str ''2024-01-01T00:00:00''\<rparr>"

definition example_env :: env where
  "example_env =
     \<lparr>now = str ''2024-05-01T10:00:00'', utcnow = str ''2024-05-01T03:00:00'',
      today = str ''2024-05-01'', db_ok = True, file_ok = True,
      new_object_id = [1, 2, 3, 4, 5, 6, 7, 8, 9, 10, 11, 12], positional = (\<lambda>ivs a b. 0)\<rparr>"

definition fallback_store :: "room list \<Rightarrow> store" where
  "fallback_store rooms = \<lparr>rooms_collection = None, fallback_rooms = rooms, json_file = rooms\<rparr>"

definition mongo_store :: "room list \<Rightarrow> store" where
  "mongo_store rooms = \<lparr>rooms_collection = Some rooms, fallback_rooms = [], json_file = rooms\<rparr>"


text \<open>
  The store after two accepted bookings of the same empty range by two guests.
\<close>

definition empty_range_store :: store where
  "empty_range_store =
     snd (book_room example_env
       (snd (book_room example_env (fallback_store [example_room (Some [])]) (str ''0101'')
          (request ''2024-06-01'' ''2024-06-01'' ''An'')))
       (str ''0101'') (request ''2024-06-01'' ''2024-06-01'' ''Binh''))"


text \<open>A create request with every required field and a given \<open>custom_id\<close>.\<close>

definition room_request_with :: "json_id option \<Rightarrow> room_request" where
  "room_request_with cid =
     \<lparr>req_name = Some (str ''Orchid''), req_price = Some (Converts 650),
      req_capacity = Some (Converts 3), req_persons = None,
      req_description = Some (str ''Lake view''), req_amenities = Some [str ''wifi''],
      custom_id = cid\<rparr>"


text \<open>An update request that carries a price and nothing else.\<close>

definition price_request :: "rat \<Rightarrow> room_request" where
  "price_request p =
     \<lparr>req_name = None, req_price = Some (Converts p), req_capacity = None, req_persons = None,
      req_description = None, req_amenities = None, custom_id = None\<rparr>"


section \<open>Lemmas on the policy and the store\<close>

lemma has_duplicate_booking_iff:
  "has_duplicate_booking ci co g ivs \<longleftrightarrow>
     (\<exists>i\<in>set ivs. exact_duplicate ci co g i \<or> dates_overlap ci co i)"
  by (induction ivs) auto

lemma has_overlap_only_iff:
  "has_overlap_only ci co ivs \<longleftrightarrow> (\<exists>i\<in>set ivs. dates_overlap ci co i)"
  by (induction ivs) auto

lemma room_status_loop_find:
  "room_status_loop ivs d =
     (case find (covers d) ivs of
        None \<Rightarrow> (True, None)
      | Some i \<Rightarrow> (False, Some (get_str (checkIn i), get_str (checkOut i))))"
  by (induction ivs) auto

lemma room_status_loop_unavailable:
  "\<not> fst (room_status_loop ivs d) \<longleftrightarrow> (\<exists>i\<in>set ivs. covers d i)"
  by (induction ivs) auto

lemma available_loop_eq: "available_loop ivs d = fst (room_status_loop ivs d)"
  by (induction ivs) auto

lemma intersect_overlap:
  fixes x :: pystr
  assumes "checkIn i = Some a" "checkOut i = Some b" "a \<noteq> []"
    and "a \<le> x" "x < b" "ci \<le> x" "x < co"
  shows "dates_overlap ci co i"
  using assms by (auto simp: dates_overlap_def get_str_def Let_def)

lemma find_update_first:
  "find P xs = Some x \<Longrightarrow> P (f x) \<Longrightarrow> find P (update_first P f xs) = Some (f x)"
  by (induction xs) (auto split: if_splits)

lemma push_interval_neq: "push_interval iv t r \<noteq> r"
  by (cases "bookedIntervals r")
     (auto simp: push_interval_def get_intervals_def dest: arg_cong[where f = bookedIntervals])

lemma fallback_find_after_update:
  assumes "fallback_find st rid = Some r" "doc_id (f r) = doc_id r"
  shows "fallback_find (st\<lparr>fallback_rooms := update_first (\<lambda>x. doc_id x = StrId rid) f (fallback_rooms st)\<rparr>) rid = Some (f r)"
proof -
  from assms(1) have "find (\<lambda>x. doc_id x = StrId rid) (fallback_rooms st) = Some r"
    by (simp add: fallback_find_def)
  moreover from this have "doc_id r = StrId rid" by (auto simp: find_Some_iff)
  ultimately show ?thesis using assms(2)
    by (simp add: fallback_find_def find_update_first)
qed

lemma fallback_find_save [simp]:
  "fallback_find (save_fallback_data e st) rid = fallback_find st rid"
  by (simp add: fallback_find_def save_fallback_data_def)

lemma rooms_collection_sync [simp]:
  "rooms_collection (sync_mongodb_to_json e st) = rooms_collection st"
  by (simp add: sync_mongodb_to_json_def split: option.splits)

lemma room_id_filter_find:
  "room_id_filter coll rid = Some (found, flt) \<Longrightarrow> find (\<lambda>x. doc_id x = flt) coll = found"
  by (auto simp: room_id_filter_def find_one_def split: option.splits)

lemma no_conflict_when_apart:
  assumes "ci < co" "get_str (checkOut i) \<le> ci \<or> co \<le> get_str (checkIn i)"
  shows "\<not> exact_duplicate ci co g i \<and> \<not> dates_overlap ci co i"
  using assms by (auto simp: exact_duplicate_def dates_overlap_def get_str_def Let_def)

lemma book_room_fallback_conflict:
  assumes "truthy (req_checkIn d)" "truthy (req_checkOut d)" "truthy (req_guestName d)"
    and "rooms_collection st = None" "fallback_find st rid = Some r"
    and "has_duplicate_booking (get_str (req_checkIn d)) (get_str (req_checkOut d)) (get_str (req_guestName d)) (get_intervals r)"
  shows "book_room e st rid d =
     (failure 409 (Err ''Booking already exists or dates overlap with existing booking''), st)"
  using assms by (simp add: book_room_def Let_def)

lemma book_room_fallback_accept:
  assumes "truthy (req_checkIn d)" "truthy (req_checkOut d)" "truthy (req_guestName d)"
    and "rooms_collection st = None" "fallback_find st rid = Some r"
    and "\<not> has_duplicate_booking (get_str (req_checkIn d)) (get_str (req_checkOut d)) (get_str (req_guestName d)) (get_intervals r)"
  shows "fst (book_room e st rid d) =
           succeed 200 (Some ''Booking created successfully'') (Some (Booking (new_interval e d))) None"
    and "fallback_find (snd (book_room e st rid d)) rid = Some (push_interval (new_interval e d) (now e) r)"
  using assms
  by (simp_all add: book_room_def Let_def fallback_find_after_update push_interval_def)

lemma book_room_mongo_conflict:
  assumes "truthy (req_checkIn d)" "truthy (req_checkOut d)" "truthy (req_guestName d)"
    and "rooms_collection st = Some coll" "db_ok e" "room_id_filter coll rid = Some (Some r, flt)"
    and "has_duplicate_booking (get_str (req_checkIn d)) (get_str (req_checkOut d)) (get_str (req_guestName d)) (get_intervals r)"
  shows "book_room e st rid d =
     (failure 409 (Err ''Booking already exists or dates overlap with existing booking''), st)"
  using assms by (simp add: book_room_def Let_def)

lemma update_one_found:
  assumes "find sel coll = Some r" "sel (upd r)"
  shows "matched_count (update_one sel upd coll) = 1"
    and "modified_count (update_one sel upd coll) = (if upd r = r then 0 else 1)"
    and "find sel (updated_coll (update_one sel upd coll)) = Some (upd r)"
  using assms by (simp_all add: update_one_def find_update_first)

lemma book_room_mongo_accept:
  assumes "truthy (req_checkIn d)" "truthy (req_checkOut d)" "truthy (req_guestName d)"
    and "rooms_collection st = Some coll" "db_ok e" "room_id_filter coll rid = Some (Some r, flt)"
    and "\<not> has_duplicate_booking (get_str (req_checkIn d)) (get_str (req_checkOut d)) (get_str (req_guestName d)) (get_intervals r)"
  shows "fst (book_room e st rid d) =
           succeed 200 (Some ''Booking created successfully'') (Some (Booking (new_interval e d))) None"
    and "\<exists>coll'. rooms_collection (snd (book_room e st rid d)) = Some coll' \<and>
           find_one coll' flt = Some (push_interval (new_interval e d) (now e) r)"
proof -
  have f: "find (\<lambda>x. doc_id x = flt) coll = Some r"
    using assms(6) by (rule room_id_filter_find)
  then have id: "doc_id r = flt" by (auto simp: find_Some_iff)
  have sel: "doc_id (push_interval (new_interval e d) (now e) r) = flt"
    using id by (simp add: push_interval_def)
  note u = update_one_found[OF f, of "push_interval (new_interval e d) (now e)", OF sel]
  show "fst (book_room e st rid d) =
           succeed 200 (Some ''Booking created successfully'') (Some (Booking (new_interval e d))) None"
    using assms u(2) by (simp add: book_room_def Let_def push_interval_neq)
  show "\<exists>coll'. rooms_collection (snd (book_room e st rid d)) = Some coll' \<and>
           find_one coll' flt = Some (push_interval (new_interval e d) (now e) r)"
    using assms u(2) u(3) by (simp add: book_room_def Let_def push_interval_neq find_one_def)
qed

lemma length_filter_same: "length (filter P xs) = length xs \<longleftrightarrow> (\<forall>x\<in>set xs. P x)"
proof (induction xs)
  case Nil
  then show ?case by simp
next
  case (Cons x xs)
  have "length (filter P xs) \<le> length xs" by (rule length_filter_le)
  then have "length (filter P xs) \<noteq> Suc (length xs)" by arith
  with Cons show ?case by auto
qed

lemma update_first_same:
  "find P xs = Some x \<Longrightarrow> f x = x \<Longrightarrow> update_first P f xs = xs"
  by (induction xs) (auto split: if_splits)

lemma update_first_twice:
  "(\<And>x. P x \<Longrightarrow> P (f x)) \<Longrightarrow>
   update_first P g (update_first P f xs) = update_first P (\<lambda>x. g (f x)) xs"
  by (induction xs) auto

lemma fallback_find_Some:
  "fallback_find st rid = Some r \<Longrightarrow>
   find (\<lambda>x. doc_id x = StrId rid) (fallback_rooms st) = Some r \<and> doc_id r = StrId rid"
  by (auto simp: fallback_find_def find_Some_iff)

lemma find_append_last:
  "find P xs = None \<Longrightarrow> P r \<Longrightarrow> find P (xs @ [r]) = Some r"
  by (induction xs) (auto split: if_splits)

lemma find_one_replace_one_upsert:
  "doc_id r = i \<Longrightarrow> find_one (replace_one_upsert i r coll) i = Some r"
  by (auto simp: replace_one_upsert_def find_one_def find_append_last find_update_first
        split: option.splits)

lemma length_hexlify: "length (hexlify bs) = 2 * length bs"
  by (induction bs) (auto simp: hexlify_def)

lemma doc_id_new_room [simp]: "doc_id (new_room e d p c i) = i"
  by (simp add: new_room_def)

lemma api_id_convert [simp]: "api_id (convert_room_for_api r) = id_str (doc_id r)"
  by (simp add: convert_room_for_api_def)

section \<open>Booking conflicts\<close>

text \<open>
  C1. A booking request with its three required fields, for a stored room, is answered
  409, with the store as it was, when its half-open range \<open>[checkIn, checkOut)\<close> shares a
  date with the range of an existing interval that has its dates, whoever the guest
  is. When the candidate's range is not empty and
  every existing interval ends no later than the candidate starts or starts no earlier
  than it ends, the request is answered 200 and the interval is appended to the room's
  \<open>bookedIntervals\<close>: the interval built from the request, with its two dates, the
  guest's name, phone, email and notes (the empty string for one not given), the time of
  the request as \<open>createdAt\<close> and no \<open>updatedAt\<close>, which is also the payload
  of the answer; back-to-back ranges (the existing check-out equal to the
  candidate's check-in) are such a case. Both backends behave so.
\<close>

theorem book_room_conflict_policy:
  assumes "truthy (req_checkIn d)" and "truthy (req_checkOut d)" and "truthy (req_guestName d)"
    and "ci = get_str (req_checkIn d)" and "co = get_str (req_checkOut d)"
    and "rooms_collection st = None \<and> fallback_find st rid = Some r \<or>
         rooms_collection st = Some coll \<and> db_ok e \<and> room_id_filter coll rid = Some (Some r, flt)"
    and "iv = \<lparr>checkIn = Some ci, checkOut = Some co,
                guestName = Some (get_str (req_guestName d)),
                guestPhone = Some (get_str (req_guestPhone d)),
                guestEmail = Some (get_str (req_guestEmail d)),
                notes' = Some (get_str (req_notes d)),
                createdAt = Some (now e), updatedAt = None\<rparr>"
  shows
    "((\<exists>i\<in>set (get_intervals r). \<exists>a b x.
          checkIn i = Some a \<and> checkOut i = Some b \<and> a \<noteq> [] \<and>
          a \<le> x \<and> x < b \<and> ci \<le> x \<and> x < co) \<longrightarrow>
        book_room e st rid d =
          (failure 409 (Err ''Booking already exists or dates overlap with existing booking''), st))
     \<and> (ci < co \<and> (\<forall>i\<in>set (get_intervals r).
                       get_str (checkOut i) \<le> ci \<or> co \<le> get_str (checkIn i)) \<longrightarrow>
          fst (book_room e st rid d) =
            succeed 200 (Some ''Booking created successfully'')
              (Some (Booking iv)) None
          \<and> (rooms_collection st = None \<longrightarrow>
               map_option get_intervals (fallback_find (snd (book_room e st rid d)) rid) =
                 Some (get_intervals r @ [iv]))
          \<and> (rooms_collection st = Some coll \<longrightarrow>
               (\<exists>coll'. rooms_collection (snd (book_room e st rid d)) = Some coll' \<and>
                  map_option get_intervals (find_one coll' flt) =
                    Some (get_intervals r @ [iv]))))
     \<and> (ci < co \<and> (\<exists>i. get_intervals r = [i] \<and> checkOut i = Some ci) \<longrightarrow>
          fst (book_room e st rid d) =
            succeed 200 (Some ''Booking created successfully'')
              (Some (Booking iv)) None)"
proof -
  let ?g = "get_str (req_guestName d)"
  have niv: "iv = new_interval e d"
    unfolding assms(7) assms(4) assms(5) by (simp add: new_interval_def)
  let ?ok = "succeed 200 (Some ''Booking created successfully'') (Some (Booking (new_interval e d))) None"
  have gi: "get_intervals (push_interval (new_interval e d) (now e) r) = get_intervals r @ [new_interval e d]"
    by (simp add: push_interval_def get_intervals_def)
  have reject: "book_room e st rid d =
      (failure 409 (Err ''Booking already exists or dates overlap with existing booking''), st)"
    if "has_duplicate_booking ci co ?g (get_intervals r)"
    using assms that book_room_fallback_conflict[of d st rid r e]
      book_room_mongo_conflict[of d st coll e rid r flt] by auto
  have accept: "fst (book_room e st rid d) = ?ok
      \<and> (rooms_collection st = None \<longrightarrow>
           map_option get_intervals (fallback_find (snd (book_room e st rid d)) rid) =
             Some (get_intervals r @ [new_interval e d]))
      \<and> (rooms_collection st = Some coll \<longrightarrow>
           (\<exists>coll'. rooms_collection (snd (book_room e st rid d)) = Some coll' \<and>
              map_option get_intervals (find_one coll' flt) =
                Some (get_intervals r @ [new_interval e d])))"
    if n: "\<not> has_duplicate_booking ci co ?g (get_intervals r)"
  proof (cases "rooms_collection st")
    case None
    with assms have f: "fallback_find st rid = Some r" by auto
    show ?thesis
      using book_room_fallback_accept[OF assms(1-3) None f] n assms(4,5) None gi by simp
  next
    case (Some c)
    with assms have c: "rooms_collection st = Some coll" "db_ok e"
      "room_id_filter coll rid = Some (Some r, flt)" by auto
    show ?thesis
      using book_room_mongo_accept[OF assms(1-3) c] n assms(4,5) c(1) gi by auto
  qed
  have 1: "has_duplicate_booking ci co ?g (get_intervals r)"
    if "\<exists>i\<in>set (get_intervals r). \<exists>a b x.
          checkIn i = Some a \<and> checkOut i = Some b \<and> a \<noteq> [] \<and>
          a \<le> x \<and> x < b \<and> ci \<le> x \<and> x < co"
    using that unfolding has_duplicate_booking_iff by (blast intro: intersect_overlap)
  have 2: "\<not> has_duplicate_booking ci co ?g (get_intervals r)"
    if "ci < co" "\<forall>i\<in>set (get_intervals r). get_str (checkOut i) \<le> ci \<or> co \<le> get_str (checkIn i)"
    using that unfolding has_duplicate_booking_iff by (blast dest: no_conflict_when_apart)
  have 3: "\<not> has_duplicate_booking ci co ?g (get_intervals r)"
    if "ci < co" "\<exists>i. get_intervals r = [i] \<and> checkOut i = Some ci"
  proof -
    from that(2) obtain i where i: "get_intervals r = [i]" "checkOut i = Some ci" by blast
    then have "\<forall>i\<in>set (get_intervals r). get_str (checkOut i) \<le> ci \<or> co \<le> get_str (checkIn i)"
      by (simp add: get_str_def)
    with that(1) show ?thesis by (rule 2)
  qed
  show ?thesis unfolding niv using reject accept 1 2 3 by blast
qed

theorem book_room_conflict_policy_witness:
  "book_room example_env
     (fallback_store [example_room (Some [booking ''2024-06-01'' ''2024-06-05'' ''An''])])
     (str ''0101'') (request ''2024-06-03'' ''2024-06-07'' ''Binh'') =
     (failure 409 (Err ''Booking already exists or dates overlap with existing booking''),
      fallback_store [example_room (Some [booking ''2024-06-01'' ''2024-06-05'' ''An''])])
   \<and> fst (book_room example_env
        (mongo_store [example_room (Some [booking ''2024-06-01'' ''2024-06-05'' ''An''])])
        (str ''0101'') (request ''2024-06-05'' ''2024-06-08'' ''Binh'')) =
       succeed 200 (Some ''Booking created successfully'')
         (Some (Booking
            \<lparr>checkIn = Some (str ''2024-06-05''), checkOut = Some (str ''2024-06-08''),
                 guestName = Some (str ''Binh''), guestPhone = Some [], guestEmail = Some [],
                 notes' = Some [], createdAt = Some (str ''2024-05-01T10:00:00''),
                 updatedAt = None\<rparr>))
         None
   \<and> map_option get_intervals
       (fallback_find
          (snd (book_room example_env
             (fallback_store [example_room (Some [booking ''2024-06-01'' ''2024-06-05'' ''An''])])
             (str ''0101'') (request ''2024-06-05'' ''2024-06-08'' ''Binh'')))
          (str ''0101'')) =
       Some [booking ''2024-06-01'' ''2024-06-05'' ''An'',
             \<lparr>checkIn = Some (str ''2024-06-05''), checkOut = Some (str ''2024-06-08''),
                 guestName = Some (str ''Binh''), guestPhone = Some [], guestEmail = Some [],
                 notes' = Some [], createdAt = Some (str ''2024-05-01T10:00:00''),
                 updatedAt = None\<rparr>]"
proof -
  let ?r = "example_room (Some [booking ''2024-06-01'' ''2024-06-05'' ''An''])"
  let ?d1 = "request ''2024-06-03'' ''2024-06-07'' ''Binh''"
  let ?d2 = "request ''2024-06-05'' ''2024-06-08'' ''Binh''"
  have v1: "truthy (req_checkIn ?d1)" "truthy (req_checkOut ?d1)" "truthy (req_guestName ?d1)"
    by (simp_all add: request_def truthy_def str_def)
  have v2: "truthy (req_checkIn ?d2)" "truthy (req_checkOut ?d2)" "truthy (req_guestName ?d2)"
    by (simp_all add: request_def truthy_def str_def)
  have f: "rooms_collection (fallback_store [?r]) = None \<and>
           fallback_find (fallback_store [?r]) (str ''0101'') = Some ?r \<or>
           rooms_collection (fallback_store [?r]) = Some [] \<and> db_ok example_env \<and>
           room_id_filter [] (str ''0101'') = Some (Some ?r, StrId (str ''0101''))"
    by (simp add: fallback_store_def fallback_find_def example_room_def)
  have m: "rooms_collection (mongo_store [?r]) = None \<and>
           fallback_find (mongo_store [?r]) (str ''0101'') = Some ?r \<or>
           rooms_collection (mongo_store [?r]) = Some [?r] \<and> db_ok example_env \<and>
           room_id_filter [?r] (str ''0101'') = Some (Some ?r, StrId (str ''0101''))"
    by (simp add: mongo_store_def room_id_filter_def find_one_def example_room_def example_env_def)
  have ov: "\<exists>i\<in>set (get_intervals ?r). \<exists>a b x.
          checkIn i = Some a \<and> checkOut i = Some b \<and> a \<noteq> [] \<and>
          a \<le> x \<and> x < b \<and> get_str (req_checkIn ?d1) \<le> x \<and> x < get_str (req_checkOut ?d1)"
    apply (simp add: get_intervals_def example_room_def booking_def request_def get_str_def)
    apply (rule conjI)
     apply (simp add: str_def)
    apply (rule exI[of _ "str ''2024-06-03''"])
    apply (simp add: str_def)
    done
  have b2b: "get_str (req_checkIn ?d2) < get_str (req_checkOut ?d2) \<and>
      (\<exists>i. get_intervals ?r = [i] \<and> checkOut i = Some (get_str (req_checkIn ?d2)))"
    by (simp add: get_intervals_def example_room_def booking_def request_def get_str_def str_def)
  have apart: "get_str (req_checkIn ?d2) < get_str (req_checkOut ?d2) \<and>
      (\<forall>i\<in>set (get_intervals ?r).
         get_str (checkOut i) \<le> get_str (req_checkIn ?d2) \<or>
         get_str (req_checkOut ?d2) \<le> get_str (checkIn i))"
    by (simp add: get_intervals_def example_room_def booking_def request_def get_str_def str_def)
  have gi: "get_intervals ?r = [booking ''2024-06-01'' ''2024-06-05'' ''An'']"
    by (simp add: get_intervals_def example_room_def)
  have rc: "rooms_collection (fallback_store [?r]) = None"
    by (simp add: fallback_store_def)
  let ?iv = "\<lparr>checkIn = Some (str ''2024-06-05''), checkOut = Some (str ''2024-06-08''),
                 guestName = Some (str ''Binh''), guestPhone = Some [], guestEmail = Some [],
                 notes' = Some [], createdAt = Some (str ''2024-05-01T10:00:00''),
                 updatedAt = None\<rparr>"
  have ivd: "\<lparr>checkIn = Some (get_str (req_checkIn ?d2)), checkOut = Some (get_str (req_checkOut ?d2)),
               guestName = Some (get_str (req_guestName ?d2)),
               guestPhone = Some (get_str (req_guestPhone ?d2)),
               guestEmail = Some (get_str (req_guestEmail ?d2)),
               notes' = Some (get_str (req_notes ?d2)),
               createdAt = Some (now example_env), updatedAt = None\<rparr> = ?iv"
    by (simp add: request_def get_str_def example_env_def)
  have 1: "book_room example_env (fallback_store [?r]) (str ''0101'') ?d1 =
     (failure 409 (Err ''Booking already exists or dates overlap with existing booking''),
      fallback_store [?r])"
    using book_room_conflict_policy[OF v1 refl refl f refl] ov by blast
  have 2: "fst (book_room example_env (mongo_store [?r]) (str ''0101'') ?d2) =
       succeed 200 (Some ''Booking created successfully'')
         (Some (Booking ?iv)) None"
    using book_room_conflict_policy[OF v2 refl refl m refl] b2b unfolding ivd by blast
  have 3: "map_option get_intervals
       (fallback_find (snd (book_room example_env (fallback_store [?r]) (str ''0101'') ?d2))
          (str ''0101'')) =
       Some (get_intervals ?r @ [?iv])"
    using book_room_conflict_policy[OF v2 refl refl f refl] apart rc unfolding ivd by blast
  from 1 2 3 show ?thesis unfolding gi by simp
qed

section \<open>Availability\<close>

text \<open>
  C2. The status loop reports the room unavailable exactly when some interval has
  \<open>checkIn <= asOfDate < checkOut\<close> in the order of strings, and the current booking is
  the first such interval of the list; the loop of the available-rooms listing gives the
  same flag. With the interval from 2024-06-01 to 2024-06-05 the room is unavailable on
  2024-06-03 and available on 2024-06-05 and on 2024-05-31.
\<close>

theorem availability_first_covering_interval:
  "room_status_loop ivs d =
     (case find (\<lambda>i. get_str (checkIn i) \<le> d \<and> d < get_str (checkOut i)) ivs of
        None \<Rightarrow> (True, None)
      | Some i \<Rightarrow> (False, Some (get_str (checkIn i), get_str (checkOut i))))
   \<and> (\<not> fst (room_status_loop ivs d) \<longleftrightarrow>
        (\<exists>i\<in>set ivs. get_str (checkIn i) \<le> d \<and> d < get_str (checkOut i)))
   \<and> available_loop ivs d = fst (room_status_loop ivs d)
   \<and> (rooms_collection st = None \<and> fallback_find st rid = Some r \<longrightarrow>
        data (get_room_status e st rid) =
          Some (Status \<lparr>rs_room_id = rid,
            rs_available = fst (room_status_loop (get_intervals r) (today e)),
            rs_status = (if fst (room_status_loop (get_intervals r) (today e))
                         then ''available'' else ''booked''),
            rs_currentBooking = snd (room_status_loop (get_intervals r) (today e))\<rparr>))
   \<and> (checkIn i = Some (str ''2024-06-01'') \<and> checkOut i = Some (str ''2024-06-05'') \<longrightarrow>
        room_status_loop [i] (str ''2024-06-03'') =
          (False, Some (str ''2024-06-01'', str ''2024-06-05''))
        \<and> room_status_loop [i] (str ''2024-06-05'') = (True, None)
        \<and> room_status_loop [i] (str ''2024-05-31'') = (True, None))"
proof -
  have c: "covers d = (\<lambda>i. get_str (checkIn i) \<le> d \<and> d < get_str (checkOut i))"
    by (auto simp: covers_def)
  have 1: "room_status_loop ivs d =
     (case find (\<lambda>i. get_str (checkIn i) \<le> d \<and> d < get_str (checkOut i)) ivs of
        None \<Rightarrow> (True, None)
      | Some i \<Rightarrow> (False, Some (get_str (checkIn i), get_str (checkOut i))))"
    using room_status_loop_find[of ivs d] by (simp add: c)
  have 2: "\<not> fst (room_status_loop ivs d) \<longleftrightarrow>
        (\<exists>i\<in>set ivs. get_str (checkIn i) \<le> d \<and> d < get_str (checkOut i))"
    using room_status_loop_unavailable[of ivs d] by (simp add: c)
  have 3: "available_loop ivs d = fst (room_status_loop ivs d)"
    by (rule available_loop_eq)
  have 4: "rooms_collection st = None \<and> fallback_find st rid = Some r \<longrightarrow>
        data (get_room_status e st rid) =
          Some (Status \<lparr>rs_room_id = rid,
            rs_available = fst (room_status_loop (get_intervals r) (today e)),
            rs_status = (if fst (room_status_loop (get_intervals r) (today e))
                         then ''available'' else ''booked''),
            rs_currentBooking = snd (room_status_loop (get_intervals r) (today e))\<rparr>)"
    by (simp add: get_room_status_def succeed_def split: prod.splits)
  have 5: "checkIn i = Some (str ''2024-06-01'') \<and> checkOut i = Some (str ''2024-06-05'') \<longrightarrow>
        room_status_loop [i] (str ''2024-06-03'') =
          (False, Some (str ''2024-06-01'', str ''2024-06-05''))
        \<and> room_status_loop [i] (str ''2024-06-05'') = (True, None)
        \<and> room_status_loop [i] (str ''2024-05-31'') = (True, None)"
    by (simp add: covers_def get_str_def str_def)
  from 1 2 3 4 5 show ?thesis by blast
qed

theorem availability_first_covering_interval_witness:
  "room_status_loop
     [booking ''2024-06-02'' ''2024-06-10'' ''An'', booking ''2024-06-01'' ''2024-06-05'' ''Binh'']
     (str ''2024-06-03'') = (False, Some (str ''2024-06-02'', str ''2024-06-10''))
   \<and> room_status_loop [booking ''2024-06-01'' ''2024-06-05'' ''Binh''] (str ''2024-06-05'') =
       (True, None)
   \<and> data (get_room_status (example_env\<lparr>today := str ''2024-06-03''\<rparr>)
        (fallback_store [example_room (Some [booking ''2024-06-01'' ''2024-06-05'' ''An''])])
        (str ''0101'')) =
       Some (Status \<lparr>rs_room_id = str ''0101'', rs_available = False, rs_status = ''booked'',
         rs_currentBooking = Some (str ''2024-06-01'', str ''2024-06-05'')\<rparr>)"
  using availability_first_covering_interval
    [of "[booking ''2024-06-02'' ''2024-06-10'' ''An'', booking ''2024-06-01'' ''2024-06-05'' ''Binh'']"
        "str ''2024-06-03''"
        "fallback_store [example_room (Some [booking ''2024-06-01'' ''2024-06-05'' ''An''])]"
        "str ''0101''"
        "example_room (Some [booking ''2024-06-01'' ''2024-06-05'' ''An''])"
        "example_env\<lparr>today := str ''2024-06-03''\<rparr>"
        "booking ''2024-06-01'' ''2024-06-05'' ''Binh''"]
  by (simp add: booking_def get_str_def str_def fallback_store_def fallback_find_def
        example_room_def example_env_def get_intervals_def covers_def)

section \<open>The clause for the same booking\<close>

text \<open>
  C5, as amended. For a candidate with a non-empty check-in date and
  \<open>checkIn < checkOut\<close>, the conflict decision is the same with and without the clause
  for the same booking, on every list of existing intervals; an existing interval with
  the candidate's two dates then makes both tests report a conflict.
\<close>

theorem duplicate_clause_subsumed:
  assumes "ci \<noteq> []" and "ci < co"
  shows "has_duplicate_booking ci co g ivs = has_overlap_only ci co ivs
     \<and> ((\<exists>i\<in>set ivs. checkIn i = Some ci \<and> checkOut i = Some co) \<longrightarrow>
          has_duplicate_booking ci co g ivs \<and> has_overlap_only ci co ivs)"
proof -
  have sub: "dates_overlap ci co i" if "checkIn i = Some ci" "checkOut i = Some co" for i
    using that assms by (auto simp: dates_overlap_def get_str_def Let_def)
  then have "exact_duplicate ci co g i \<Longrightarrow> dates_overlap ci co i" for i
    by (simp add: exact_duplicate_def)
  then have "has_duplicate_booking ci co g ivs = has_overlap_only ci co ivs"
    unfolding has_duplicate_booking_iff has_overlap_only_iff by blast
  moreover have "has_overlap_only ci co ivs"
    if "\<exists>i\<in>set ivs. checkIn i = Some ci \<and> checkOut i = Some co"
    using that sub unfolding has_overlap_only_iff by blast
  ultimately show ?thesis by blast
qed

theorem duplicate_clause_subsumed_witness:
  "has_duplicate_booking (str ''2024-06-01'') (str ''2024-06-05'') (str ''An'')
     [booking ''2024-06-01'' ''2024-06-05'' ''An'']
   \<and> has_overlap_only (str ''2024-06-01'') (str ''2024-06-05'')
     [booking ''2024-06-01'' ''2024-06-05'' ''An'']"
proof -
  have h: "str ''2024-06-01'' \<noteq> []" "str ''2024-06-01'' < str ''2024-06-05''"
    by (simp_all add: str_def)
  have i: "\<exists>i\<in>set [booking ''2024-06-01'' ''2024-06-05'' ''An''].
             checkIn i = Some (str ''2024-06-01'') \<and> checkOut i = Some (str ''2024-06-05'')"
    by (simp add: booking_def)
  from duplicate_clause_subsumed[OF h, where g = "str ''An''"
      and ivs = "[booking ''2024-06-01'' ''2024-06-05'' ''An'']"] i
  show ?thesis by blast
qed


text \<open>
  C5, as stated, fails for a candidate whose range is empty: the second request for the
  same dates and the same guest is refused by the clause for the same booking alone.
\<close>

theorem duplicate_clause_decides_empty_range:
  "checkIn (booking ''2024-06-01'' ''2024-06-01'' ''An'') = Some (str ''2024-06-01'')
   \<and> checkOut (booking ''2024-06-01'' ''2024-06-01'' ''An'') = Some (str ''2024-06-01'')
   \<and> has_duplicate_booking (str ''2024-06-01'') (str ''2024-06-01'') (str ''An'')
       [booking ''2024-06-01'' ''2024-06-01'' ''An'']
   \<and> \<not> has_overlap_only (str ''2024-06-01'') (str ''2024-06-01'')
       [booking ''2024-06-01'' ''2024-06-01'' ''An'']
   \<and> fst (book_room example_env (fallback_store [example_room (Some [])]) (str ''0101'')
        (request ''2024-06-01'' ''2024-06-01'' ''An'')) =
       succeed 200 (Some ''Booking created successfully'')
         (Some (Booking (new_interval example_env (request ''2024-06-01'' ''2024-06-01'' ''An''))))
         None
   \<and> fst (book_room example_env
        (snd (book_room example_env (fallback_store [example_room (Some [])]) (str ''0101'')
           (request ''2024-06-01'' ''2024-06-01'' ''An'')))
        (str ''0101'') (request ''2024-06-01'' ''2024-06-01'' ''An'')) =
       failure 409 (Err ''Booking already exists or dates overlap with existing booking'')"
  by (simp add: booking_def str_def exact_duplicate_def dates_overlap_def get_str_def
        book_room_def request_def truthy_def fallback_store_def fallback_find_def
        example_room_def example_env_def get_intervals_def new_interval_def push_interval_def
        save_fallback_data_def Let_def)

section \<open>Listing rooms when the database fails\<close>

text \<open>
  C9, as amended. When the database is the active backend and its call raises during the
  request, the public listing answers 200 with the rooms of the in-memory list
  \<open>fallback_rooms\<close>, each in its API form, and the source \<open>fallback_error_recovery\<close> if
  that list is not empty, and 500 exactly when it is empty. The content of the file
  plays no part.
\<close>

theorem public_rooms_error_recovery:
  assumes "rooms_collection st = Some coll" and "\<not> db_ok e"
  shows "(fallback_rooms st \<noteq> [] \<longrightarrow>
            get_public_rooms e st =
              \<lparr>status = 200, success = True, message = None, error = None,
               data = Some (Rooms (map (\<lambda>r.
                 \<lparr>api_room_id = id_str (doc_id r), api_id = id_str (doc_id r),
                  api_name = name r, api_price = price r, api_capacity = persons r,
                  api_persons = persons r, api_description = description r,
                  api_amenities = amenities r,
                  api_bookedIntervals = (case bookedIntervals r of None \<Rightarrow> [] | Some ivs \<Rightarrow> ivs),
                  api_created_at = (if created_at r \<noteq> [] then Some (created_at r) else None),
                  api_updated_at = (if updated_at r \<noteq> [] then Some (updated_at r) else None)\<rparr>)
                 (fallback_rooms st))),
               source = Some ''fallback_error_recovery''\<rparr>)
     \<and> (fallback_rooms st = [] \<longrightarrow>
            get_public_rooms e st =
              \<lparr>status = 500, success = False, message = None, error = Some Exception_text,
               data = None, source = None\<rparr>)
     \<and> (status (get_public_rooms e st) = 500 \<longleftrightarrow> fallback_rooms st = [])
     \<and> get_public_rooms e (st\<lparr>json_file := file\<rparr>) = get_public_rooms e st"
proof -
  have c: "convert_room_for_api = (\<lambda>r.
      \<lparr>api_room_id = id_str (doc_id r), api_id = id_str (doc_id r),
       api_name = name r, api_price = price r, api_capacity = persons r,
       api_persons = persons r, api_description = description r,
       api_amenities = amenities r,
       api_bookedIntervals = (case bookedIntervals r of None \<Rightarrow> [] | Some ivs \<Rightarrow> ivs),
       api_created_at = (if created_at r \<noteq> [] then Some (created_at r) else None),
       api_updated_at = (if updated_at r \<noteq> [] then Some (updated_at r) else None)\<rparr>)"
    by (rule ext) (simp add: convert_room_for_api_def get_intervals_def)
  show ?thesis
    using assms unfolding c[symmetric]
    by (simp add: get_public_rooms_def succeed_def failure_def)
qed

theorem public_rooms_error_recovery_witness:
  "get_public_rooms (example_env\<lparr>db_ok := False\<rparr>)
     ((mongo_store [])\<lparr>fallback_rooms := [example_room (Some [booking ''2024-06-01'' ''2024-06-05'' ''An''])]\<rparr>) =
     \<lparr>status = 200, success = True, message = None, error = None,
      data = Some (Rooms
        [\<lparr>api_room_id = str ''0101'', api_id = str ''0101'', api_name = str ''Lotus'',
          api_price = 500, api_capacity = 2, api_persons = 2,
          api_description = str ''Garden view'', api_amenities = [str ''wifi''],
          api_bookedIntervals = [booking ''2024-06-01'' ''2024-06-05'' ''An''],
          api_created_at = Some (str ''2024-01-01T00:00:00''),
          api_updated_at = Some (str ''2024-01-01T00:00:00'')\<rparr>]),
      source = Some ''fallback_error_recovery''\<rparr>
   \<and> get_public_rooms (example_env\<lparr>db_ok := False\<rparr>) (mongo_store []) =
     \<lparr>status = 500, success = False, message = None, error = Some Exception_text,
      data = None, source = None\<rparr>"
proof -
  let ?r = "example_room (Some [booking ''2024-06-01'' ''2024-06-05'' ''An''])"
  have a: "rooms_collection ((mongo_store [])\<lparr>fallback_rooms := [?r]\<rparr>) = Some []"
    and b: "rooms_collection (mongo_store []) = Some []"
    and d: "\<not> db_ok (example_env\<lparr>db_ok := False\<rparr>)"
    by (simp_all add: mongo_store_def)
  have f: "fallback_rooms ((mongo_store [])\<lparr>fallback_rooms := [?r]\<rparr>) = [?r]"
    "fallback_rooms (mongo_store []) = []"
    by (simp_all add: mongo_store_def)
  have r: "doc_id ?r = StrId (str ''0101'')" "name ?r = str ''Lotus''" "price ?r = 500"
    "persons ?r = 2" "description ?r = str ''Garden view''" "amenities ?r = [str ''wifi'']"
    "bookedIntervals ?r = Some [booking ''2024-06-01'' ''2024-06-05'' ''An'']"
    "created_at ?r = str ''2024-01-01T00:00:00''" "updated_at ?r = str ''2024-01-01T00:00:00''"
    by (simp_all add: example_room_def)
  have n: "str ''2024-01-01T00:00:00'' \<noteq> []"
    by (simp add: str_def)
  show ?thesis
    using public_rooms_error_recovery[OF a d] public_rooms_error_recovery[OF b d]
    by (simp add: f r id_str_def n)
qed


text \<open>
  C9, as stated, fails on the store of a server that connected to the database at its
  start: the file then holds the rooms of the database and \<open>fallback_rooms\<close> is empty, so
  a call that raises later is answered 500 although the file snapshot is not empty.
\<close>

theorem public_rooms_fail_beside_snapshot_file:
  "json_file (mongo_store [example_room (Some [])]) = [example_room (Some [])]
   \<and> rooms_collection (mongo_store [example_room (Some [])]) = Some [example_room (Some [])]
   \<and> get_public_rooms (example_env\<lparr>db_ok := False\<rparr>) (mongo_store [example_room (Some [])]) =
       \<lparr>status = 500, success = False, message = None, error = Some Exception_text,
        data = None, source = None\<rparr>"
  by (simp add: mongo_store_def get_public_rooms_def failure_def)

section \<open>Cancelling on a room without an interval list\<close>

text \<open>
  C10. In fallback mode, a cancel request with both dates for a stored room whose
  document has no \<open>bookedIntervals\<close> field is answered 200 with the message
  \<open>Booking cancelled successfully\<close>, and the list of rooms and the file stay as they
  were.
\<close>

theorem unbook_room_without_interval_list:
  assumes "truthy (req_checkIn d)" and "truthy (req_checkOut d)"
    and "rooms_collection st = None" and "fallback_find st rid = Some r"
    and "bookedIntervals r = None"
  shows "unbook_room e st rid d =
           (succeed 200 (Some ''Booking cancelled successfully'') None None, st)"
  using assms by (simp add: unbook_room_def Let_def)

theorem unbook_room_without_interval_list_witness:
  "unbook_room example_env (fallback_store [example_room None]) (str ''0101'')
     (request ''2024-06-01'' ''2024-06-05'' ''An'') =
     (succeed 200 (Some ''Booking cancelled successfully'') None None,
      fallback_store [example_room None])"
proof -
  have "truthy (req_checkIn (request ''2024-06-01'' ''2024-06-05'' ''An''))"
    and "truthy (req_checkOut (request ''2024-06-01'' ''2024-06-05'' ''An''))"
    and "rooms_collection (fallback_store [example_room None]) = None"
    and "fallback_find (fallback_store [example_room None]) (str ''0101'') = Some (example_room None)"
    and "bookedIntervals (example_room None) = None"
    by (simp_all add: request_def truthy_def str_def fallback_store_def fallback_find_def
          example_room_def)
  then show ?thesis by (rule unbook_room_without_interval_list)
qed

section \<open>Cancelling a booking\<close>

lemma remove_matching_filter:
  "\<forall>i\<in>set ivs. checkIn i \<noteq> None \<and> checkOut i \<noteq> None \<Longrightarrow>
   remove_matching ci co ivs = Some (filter (\<lambda>i. \<not> pull_matches ci co i) ivs)"
  by (induction ivs) (auto simp: pair_matches_def pull_matches_def)

lemma unbook_fallback_removed:
  assumes v: "truthy (req_checkIn d)" "truthy (req_checkOut d)"
    and c: "ci = get_str (req_checkIn d)" "co = get_str (req_checkOut d)"
    and s: "rooms_collection st = None" "fallback_find st rid = Some r" "bookedIntervals r = Some ivs"
    and k: "\<forall>i\<in>set ivs. checkIn i \<noteq> None \<and> checkOut i \<noteq> None"
    and m: "\<exists>i\<in>set ivs. checkIn i = Some ci \<and> checkOut i = Some co"
  shows "fst (unbook_room e st rid d) =
           succeed 200 (Some ''Booking cancelled successfully'') None None"
    and "fallback_find (snd (unbook_room e st rid d)) rid =
           Some (r\<lparr>bookedIntervals :=
                     Some (filter (\<lambda>i. \<not> (checkIn i = Some ci \<and> checkOut i = Some co)) ivs),
                   updated_at := now e\<rparr>)"
proof -
  let ?ivs' = "filter (\<lambda>i. \<not> pull_matches ci co i) ivs"
  have rm: "remove_matching ci co ivs = Some ?ivs'"
    using k by (rule remove_matching_filter)
  have len: "length ?ivs' \<noteq> length ivs"
    using m by (auto simp: length_filter_same pull_matches_def)
  have P: "\<And>x. doc_id x = StrId rid \<Longrightarrow> doc_id (x\<lparr>bookedIntervals := Some ?ivs'\<rparr>) = StrId rid"
    by simp
  have tw: "update_first (\<lambda>x. doc_id x = StrId rid) (\<lambda>x. x\<lparr>updated_at := now e\<rparr>)
              (update_first (\<lambda>x. doc_id x = StrId rid) (\<lambda>x. x\<lparr>bookedIntervals := Some ?ivs'\<rparr>) (fallback_rooms st))
          = update_first (\<lambda>x. doc_id x = StrId rid)
              (\<lambda>x. x\<lparr>bookedIntervals := Some ?ivs', updated_at := now e\<rparr>) (fallback_rooms st)"
    by (subst update_first_twice) simp_all
  show "fst (unbook_room e st rid d) =
           succeed 200 (Some ''Booking cancelled successfully'') None None"
    using v s rm len c by (simp add: unbook_room_def Let_def)
  have "fallback_find (snd (unbook_room e st rid d)) rid =
          fallback_find (st\<lparr>fallback_rooms := update_first (\<lambda>x. doc_id x = StrId rid)
              (\<lambda>x. x\<lparr>bookedIntervals := Some ?ivs', updated_at := now e\<rparr>) (fallback_rooms st)\<rparr>) rid"
    using v s rm len c tw by (simp add: unbook_room_def Let_def)
  also have "\<dots> = Some (r\<lparr>bookedIntervals := Some ?ivs', updated_at := now e\<rparr>)"
    using s(2) by (rule fallback_find_after_update) simp
  finally show "fallback_find (snd (unbook_room e st rid d)) rid =
           Some (r\<lparr>bookedIntervals :=
                     Some (filter (\<lambda>i. \<not> (checkIn i = Some ci \<and> checkOut i = Some co)) ivs),
                   updated_at := now e\<rparr>)"
    by (simp add: pull_matches_def)
qed

lemma unbook_fallback_not_found:
  assumes v: "truthy (req_checkIn d)" "truthy (req_checkOut d)"
    and c: "ci = get_str (req_checkIn d)" "co = get_str (req_checkOut d)"
    and s: "rooms_collection st = None" "fallback_find st rid = Some r" "bookedIntervals r = Some ivs"
    and k: "\<forall>i\<in>set ivs. checkIn i \<noteq> None \<and> checkOut i \<noteq> None"
    and m: "\<not> (\<exists>i\<in>set ivs. checkIn i = Some ci \<and> checkOut i = Some co)"
  shows "unbook_room e st rid d = (failure 404 (Err ''Booking not found''), st)"
proof -
  let ?ivs' = "filter (\<lambda>i. \<not> pull_matches ci co i) ivs"
  have same: "?ivs' = ivs" using m by (auto simp: pull_matches_def filter_id_conv)
  have rm: "remove_matching ci co ivs = Some ivs"
    using remove_matching_filter[OF k, of ci co] same by simp
  have "r\<lparr>bookedIntervals := Some ivs\<rparr> = r" using s(3) by simp
  with fallback_find_Some[OF s(2)]
  have "update_first (\<lambda>x. doc_id x = StrId rid) (\<lambda>x. x\<lparr>bookedIntervals := Some ivs\<rparr>)
          (fallback_rooms st) = fallback_rooms st"
    by (intro update_first_same[where x = r]) simp_all
  then show ?thesis using v s rm c by (simp add: unbook_room_def Let_def)
qed

lemma unbook_mongo:
  assumes v: "truthy (req_checkIn d)" "truthy (req_checkOut d)"
    and c: "ci = get_str (req_checkIn d)" "co = get_str (req_checkOut d)"
    and s: "rooms_collection st = Some coll" "db_ok e" "room_id_filter coll rid = Some (Some r, flt)"
  shows "\<exists>coll'. rooms_collection (snd (unbook_room e st rid d)) = Some coll' \<and>
           map_option get_intervals (find_one coll' flt) =
             Some (filter (\<lambda>i. \<not> (checkIn i = Some ci \<and> checkOut i = Some co)) (get_intervals r))"
    and "(\<exists>i\<in>set (get_intervals r). checkIn i = Some ci \<and> checkOut i = Some co) \<Longrightarrow>
         fst (unbook_room e st rid d) =
           succeed 200 (Some ''Booking cancelled successfully'') None None"
proof -
  let ?upd = "pull_intervals ci co (now e)"
  have f: "find (\<lambda>x. doc_id x = flt) coll = Some r"
    using s(3) by (rule room_id_filter_find)
  then have id: "doc_id r = flt" by (auto simp: find_Some_iff)
  have sel: "doc_id (?upd r) = flt" using id by (simp add: pull_intervals_def)
  note u = update_one_found[OF f, of ?upd, OF sel]
  have gi: "get_intervals (?upd r) =
      filter (\<lambda>i. \<not> (checkIn i = Some ci \<and> checkOut i = Some co)) (get_intervals r)"
    by (simp add: pull_intervals_def get_intervals_def pull_matches_def split: option.splits)
  show "\<exists>coll'. rooms_collection (snd (unbook_room e st rid d)) = Some coll' \<and>
           map_option get_intervals (find_one coll' flt) =
             Some (filter (\<lambda>i. \<not> (checkIn i = Some ci \<and> checkOut i = Some co)) (get_intervals r))"
    using v s c u(3) gi by (simp add: unbook_room_def Let_def find_one_def)
  assume m: "\<exists>i\<in>set (get_intervals r). checkIn i = Some ci \<and> checkOut i = Some co"
  have "length (get_intervals (?upd r)) \<noteq> length (get_intervals r)"
    unfolding gi using m by (auto simp: length_filter_same)
  then have "?upd r \<noteq> r" by auto
  then show "fst (unbook_room e st rid d) =
           succeed 200 (Some ''Booking cancelled successfully'') None None"
    using v s c u(2) by (simp add: unbook_room_def Let_def)
qed


text \<open>
  C7, as amended. A cancel request with both dates removes every interval of the room
  that has the pair of dates, keeps the others in their order and answers 200; this
  holds in both backends. When no interval has the pair, the intervals stay as they
  are, and in fallback mode, for a room that has an interval list, the answer is 404
  with the store unchanged. (In fallback mode the stored intervals are taken to carry
  both dates, since the comparison reads them by key.)
\<close>

theorem unbook_room_removes_every_match:
  assumes "truthy (req_checkIn d)" and "truthy (req_checkOut d)"
    and "ci = get_str (req_checkIn d)" and "co = get_str (req_checkOut d)"
  shows
    "(rooms_collection st = None \<and> fallback_find st rid = Some r \<and> bookedIntervals r = Some ivs \<and>
      (\<forall>i\<in>set ivs. checkIn i \<noteq> None \<and> checkOut i \<noteq> None) \<longrightarrow>
        ((\<exists>i\<in>set ivs. checkIn i = Some ci \<and> checkOut i = Some co) \<longrightarrow>
           fst (unbook_room e st rid d) =
             succeed 200 (Some ''Booking cancelled successfully'') None None
           \<and> fallback_find (snd (unbook_room e st rid d)) rid =
               Some (r\<lparr>bookedIntervals :=
                         Some (filter (\<lambda>i. \<not> (checkIn i = Some ci \<and> checkOut i = Some co)) ivs),
                       updated_at := now e\<rparr>))
        \<and> (\<not> (\<exists>i\<in>set ivs. checkIn i = Some ci \<and> checkOut i = Some co) \<longrightarrow>
             unbook_room e st rid d = (failure 404 (Err ''Booking not found''), st)))
     \<and> (rooms_collection st = Some coll \<and> db_ok e \<and>
        room_id_filter coll rid = Some (Some r, flt) \<longrightarrow>
          (\<exists>coll'. rooms_collection (snd (unbook_room e st rid d)) = Some coll' \<and>
             map_option get_intervals (find_one coll' flt) =
               Some (filter (\<lambda>i. \<not> (checkIn i = Some ci \<and> checkOut i = Some co))
                       (get_intervals r)))
          \<and> ((\<exists>i\<in>set (get_intervals r). checkIn i = Some ci \<and> checkOut i = Some co) \<longrightarrow>
               fst (unbook_room e st rid d) =
                 succeed 200 (Some ''Booking cancelled successfully'') None None))"
  using unbook_fallback_removed[OF assms, of st rid r ivs e]
    unbook_fallback_not_found[OF assms, of st rid r ivs e]
    unbook_mongo[OF assms, of st coll e rid r flt]
  by blast

theorem unbook_room_removes_every_match_witness:
  "fst (unbook_room example_env
        (fallback_store [example_room (Some [booking ''2024-06-01'' ''2024-06-05'' ''An'',
                                             booking ''2024-06-05'' ''2024-06-10'' ''Binh''])])
        (str ''0101'') (request ''2024-06-01'' ''2024-06-05'' ''An'')) =
     succeed 200 (Some ''Booking cancelled successfully'') None None
   \<and> map_option get_intervals
       (fallback_find (snd (unbook_room example_env
          (fallback_store [example_room (Some [booking ''2024-06-01'' ''2024-06-05'' ''An'',
                                               booking ''2024-06-05'' ''2024-06-10'' ''Binh''])])
          (str ''0101'') (request ''2024-06-01'' ''2024-06-05'' ''An''))) (str ''0101'')) =
     Some [booking ''2024-06-05'' ''2024-06-10'' ''Binh'']
   \<and> unbook_room example_env
        (fallback_store [example_room (Some [booking ''2024-06-01'' ''2024-06-05'' ''An'',
                                             booking ''2024-06-05'' ''2024-06-10'' ''Binh''])])
        (str ''0101'') (request ''2024-07-01'' ''2024-07-03'' ''An'') =
     (failure 404 (Err ''Booking not found''),
      fallback_store [example_room (Some [booking ''2024-06-01'' ''2024-06-05'' ''An'',
                                          booking ''2024-06-05'' ''2024-06-10'' ''Binh''])])
   \<and> fst (unbook_room example_env
        (mongo_store [example_room (Some [booking ''2024-06-01'' ''2024-06-05'' ''An'',
                                          booking ''2024-06-05'' ''2024-06-10'' ''Binh''])])
        (str ''0101'') (request ''2024-06-01'' ''2024-06-05'' ''An'')) =
     succeed 200 (Some ''Booking cancelled successfully'') None None"
proof -
  let ?ivs = "[booking ''2024-06-01'' ''2024-06-05'' ''An'',
               booking ''2024-06-05'' ''2024-06-10'' ''Binh'']"
  let ?r = "example_room (Some ?ivs)"
  let ?d1 = "request ''2024-06-01'' ''2024-06-05'' ''An''"
  let ?d2 = "request ''2024-07-01'' ''2024-07-03'' ''An''"
  have v1: "truthy (req_checkIn ?d1)" "truthy (req_checkOut ?d1)"
    and v2: "truthy (req_checkIn ?d2)" "truthy (req_checkOut ?d2)"
    by (simp_all add: request_def truthy_def str_def)
  have f: "rooms_collection (fallback_store [?r]) = None \<and>
           fallback_find (fallback_store [?r]) (str ''0101'') = Some ?r \<and>
           bookedIntervals ?r = Some ?ivs \<and>
           (\<forall>i\<in>set ?ivs. checkIn i \<noteq> None \<and> checkOut i \<noteq> None)"
    by (simp add: fallback_store_def fallback_find_def example_room_def booking_def)
  have m: "rooms_collection (mongo_store [?r]) = Some [?r] \<and> db_ok example_env \<and>
           room_id_filter [?r] (str ''0101'') = Some (Some ?r, StrId (str ''0101''))"
    by (simp add: mongo_store_def room_id_filter_def find_one_def example_room_def example_env_def)
  have gi: "get_intervals ?r = ?ivs"
    by (simp add: get_intervals_def example_room_def)
  have y: "\<exists>i\<in>set ?ivs. checkIn i = Some (get_str (req_checkIn ?d1)) \<and>
                         checkOut i = Some (get_str (req_checkOut ?d1))"
    by (simp add: booking_def request_def get_str_def)
  have n: "\<not> (\<exists>i\<in>set ?ivs. checkIn i = Some (get_str (req_checkIn ?d2)) \<and>
                         checkOut i = Some (get_str (req_checkOut ?d2)))"
    by (simp add: booking_def request_def get_str_def str_def)
  have flt: "filter (\<lambda>i. \<not> (checkIn i = Some (get_str (req_checkIn ?d1)) \<and>
                         checkOut i = Some (get_str (req_checkOut ?d1)))) ?ivs
             = [booking ''2024-06-05'' ''2024-06-10'' ''Binh'']"
    by (simp add: booking_def request_def get_str_def str_def)
  note a = unbook_room_removes_every_match[OF v1 refl refl,
      where st = "fallback_store [?r]" and rid = "str ''0101''" and r = ?r and ivs = ?ivs
        and coll = "[?r]" and e = example_env and flt = "StrId (str ''0101'')"]
  note b = unbook_room_removes_every_match[OF v2 refl refl,
      where st = "fallback_store [?r]" and rid = "str ''0101''" and r = ?r and ivs = ?ivs
        and coll = "[?r]" and e = example_env and flt = "StrId (str ''0101'')"]
  note c = unbook_room_removes_every_match[OF v1 refl refl,
      where st = "mongo_store [?r]" and rid = "str ''0101''" and r = ?r and ivs = ?ivs
        and coll = "[?r]" and e = example_env and flt = "StrId (str ''0101'')"]
  have 1: "fst (unbook_room example_env (fallback_store [?r]) (str ''0101'') ?d1) =
             succeed 200 (Some ''Booking cancelled successfully'') None None"
    and 2: "fallback_find (snd (unbook_room example_env (fallback_store [?r]) (str ''0101'') ?d1))
              (str ''0101'') =
            Some (?r\<lparr>bookedIntervals := Some [booking ''2024-06-05'' ''2024-06-10'' ''Binh''],
                    updated_at := now example_env\<rparr>)"
    using a f y flt by auto
  have 3: "unbook_room example_env (fallback_store [?r]) (str ''0101'') ?d2 =
             (failure 404 (Err ''Booking not found''), fallback_store [?r])"
    using b f n by blast
  have 4: "fst (unbook_room example_env (mongo_store [?r]) (str ''0101'') ?d1) =
             succeed 200 (Some ''Booking cancelled successfully'') None None"
    using c m y gi by auto
  from 1 2 3 4 show ?thesis by (simp add: get_intervals_def)
qed


text \<open>
  C7, as stated, fails on a room with two intervals of the same pair, which two accepted
  bookings of an empty range by different guests produce: the cancel request removes
  both, not the first. In database mode a pair that no interval has is answered 200,
  since the update also sets \<open>updated_at\<close> and so modifies the document.
\<close>

theorem unbook_room_removes_both_matches:
  "map_option get_intervals (fallback_find empty_range_store (str ''0101'')) =
     Some [new_interval example_env (request ''2024-06-01'' ''2024-06-01'' ''An''),
           new_interval example_env (request ''2024-06-01'' ''2024-06-01'' ''Binh'')]
   \<and> fst (unbook_room example_env empty_range_store (str ''0101'')
        (request ''2024-06-01'' ''2024-06-01'' ''An'')) =
     succeed 200 (Some ''Booking cancelled successfully'') None None
   \<and> map_option get_intervals
       (fallback_find (snd (unbook_room example_env empty_range_store (str ''0101'')
          (request ''2024-06-01'' ''2024-06-01'' ''An''))) (str ''0101'')) = Some []
   \<and> \<not> list_ex (\<lambda>i. checkIn i = Some (str ''2024-07-01'') \<and> checkOut i = Some (str ''2024-07-03''))
         [booking ''2024-06-01'' ''2024-06-05'' ''An'']
   \<and> fst (unbook_room example_env
        (mongo_store [example_room (Some [booking ''2024-06-01'' ''2024-06-05'' ''An''])])
        (str ''0101'') (request ''2024-07-01'' ''2024-07-03'' ''An'')) =
     succeed 200 (Some ''Booking cancelled successfully'') None None"
  by code_simp

section \<open>Updating a booking\<close>

lemma update_first_match_found:
  assumes "\<forall>j\<in>set pre. checkIn j \<noteq> None \<and> checkOut j \<noteq> None \<and>
             \<not> (checkIn j = Some ci \<and> checkOut j = Some co)"
    and "checkIn i = Some ci" "checkOut i = Some co"
  shows "update_first_match ci co f (pre @ i # post) = Found (pre @ f i # post)"
  using assms by (induction pre) (auto simp: pair_matches_def)

lemma update_first_match_not_found:
  assumes "\<forall>j\<in>set ivs. checkIn j \<noteq> None \<and> checkOut j \<noteq> None \<and>
             \<not> (checkIn j = Some ci \<and> checkOut j = Some co)"
  shows "update_first_match ci co f ivs = Not_found"
  using assms by (induction ivs) (auto simp: pair_matches_def)

lemma update_booking_fallback_found:
  assumes v: "truthy (req_checkIn d)" "truthy (req_checkOut d)" "truthy (req_guestName d)"
    and c: "ci = get_str (req_checkIn d)" "co = get_str (req_checkOut d)"
    and s: "rooms_collection st = None" "fallback_find st rid = Some r"
      "bookedIntervals r = Some (pre @ i # post)"
    and k: "\<forall>j\<in>set pre. checkIn j \<noteq> None \<and> checkOut j \<noteq> None \<and>
             \<not> (checkIn j = Some ci \<and> checkOut j = Some co)"
    and m: "checkIn i = Some ci" "checkOut i = Some co"
  shows "fst (update_booking e st rid d) =
           succeed 200 (Some ''Booking updated successfully'') None None"
    and "fallback_find (snd (update_booking e st rid d)) rid =
           Some (r\<lparr>bookedIntervals :=
                     Some (pre @
                       i\<lparr>guestName := Some (get_str (req_guestName d)),
                         guestPhone := Some (get_str (req_guestPhone d)),
                         guestEmail := Some (get_str (req_guestEmail d)),
                         notes' := Some (get_str (req_notes d)),
                         updatedAt := Some (now e)\<rparr> # post),
                   updated_at := now e\<rparr>)"
proof -
  let ?f = "set_guest_fields (get_str (req_guestName d)) (get_str (req_guestPhone d))
              (get_str (req_guestEmail d)) (get_str (req_notes d)) (now e)"
  have u: "update_first_match ci co ?f (pre @ i # post) = Found (pre @ ?f i # post)"
    using k m by (rule update_first_match_found)
  show "fst (update_booking e st rid d) =
           succeed 200 (Some ''Booking updated successfully'') None None"
    using v c s u by (simp add: update_booking_def Let_def)
  have "fallback_find (snd (update_booking e st rid d)) rid =
          fallback_find (st\<lparr>fallback_rooms := update_first (\<lambda>x. doc_id x = StrId rid)
              (\<lambda>x. x\<lparr>bookedIntervals := Some (pre @ ?f i # post), updated_at := now e\<rparr>)
              (fallback_rooms st)\<rparr>) rid"
    using v c s u by (simp add: update_booking_def Let_def)
  also have "\<dots> = Some (r\<lparr>bookedIntervals := Some (pre @ ?f i # post), updated_at := now e\<rparr>)"
    using s(2) by (rule fallback_find_after_update) simp
  finally show "fallback_find (snd (update_booking e st rid d)) rid =
           Some (r\<lparr>bookedIntervals :=
                     Some (pre @
                       i\<lparr>guestName := Some (get_str (req_guestName d)),
                         guestPhone := Some (get_str (req_guestPhone d)),
                         guestEmail := Some (get_str (req_guestEmail d)),
                         notes' := Some (get_str (req_notes d)),
                         updatedAt := Some (now e)\<rparr> # post),
                   updated_at := now e\<rparr>)"
    by (simp add: set_guest_fields_def)
qed

lemma update_booking_fallback_not_found:
  assumes v: "truthy (req_checkIn d)" "truthy (req_checkOut d)" "truthy (req_guestName d)"
    and c: "ci = get_str (req_checkIn d)" "co = get_str (req_checkOut d)"
    and s: "rooms_collection st = None" "fallback_find st rid = Some r"
      "bookedIntervals r = Some ivs"
    and k: "\<forall>j\<in>set ivs. checkIn j \<noteq> None \<and> checkOut j \<noteq> None \<and>
             \<not> (checkIn j = Some ci \<and> checkOut j = Some co)"
  shows "update_booking e st rid d = (failure 404 (Err ''Booking not found''), st)"
  using v c s update_first_match_not_found[OF k]
  by (simp add: update_booking_def Let_def)

lemma find_none_distinct_id:
  assumes "distinct (map doc_id coll)" "find (\<lambda>x. doc_id x = flt) coll = Some r" "\<not> Q r"
  shows "find (\<lambda>x. doc_id x = flt \<and> Q x) coll = None"
  using assms
proof (induction coll)
  case Nil
  then show ?case by simp
next
  case (Cons a coll)
  show ?case
  proof (cases "doc_id a = flt")
    case True
    with Cons.prems have "a = r" by simp
    moreover have "\<forall>x\<in>set coll. doc_id x \<noteq> flt"
    proof
      fix x assume "x \<in> set coll"
      then have "doc_id x \<in> doc_id ` set coll" by (rule imageI)
      moreover have "doc_id a \<notin> doc_id ` set coll" using Cons.prems(1) by simp
      ultimately show "doc_id x \<noteq> flt" using True by auto
    qed
    ultimately show ?thesis using Cons.prems(3) by (auto simp: find_None_iff)
  next
    case False
    with Cons show ?thesis by simp
  qed
qed

lemma update_booking_mongo_not_found:
  assumes v: "truthy (req_checkIn d)" "truthy (req_checkOut d)" "truthy (req_guestName d)"
    and c: "ci = get_str (req_checkIn d)" "co = get_str (req_checkOut d)"
    and s: "rooms_collection st = Some coll" "db_ok e"
      "room_id_filter coll rid = Some (Some r, flt)" "distinct (map doc_id coll)"
    and n: "\<not> (\<exists>j\<in>set (get_intervals r). checkIn j = Some ci) \<or>
            \<not> (\<exists>j\<in>set (get_intervals r). checkOut j = Some co)"
  shows "update_booking e st rid d = (failure 404 (Err ''Booking not found''), st)"
proof -
  have f: "find (\<lambda>x. doc_id x = flt) coll = Some r"
    using s(3) by (rule room_id_filter_find)
  have q: "\<not> (list_ex (\<lambda>i. checkIn i = Some ci) (get_intervals r) \<and>
              list_ex (\<lambda>i. checkOut i = Some co) (get_intervals r))"
    using n by (auto simp: list_ex_iff)
  have bf: "booking_filter flt ci co =
      (\<lambda>x. doc_id x = flt \<and> (list_ex (\<lambda>i. checkIn i = Some ci) (get_intervals x) \<and>
              list_ex (\<lambda>i. checkOut i = Some co) (get_intervals x)))"
    by (auto simp: booking_filter_def)
  have "find (booking_filter flt ci co) coll = None"
    unfolding bf using s(4) f q by (rule find_none_distinct_id)
  then have "matched_count (update_one (booking_filter flt ci co) upd coll) = 0"
    and "updated_coll (update_one (booking_filter flt ci co) upd coll) = coll" for upd
    by (simp_all add: update_one_def)
  then show ?thesis using v c s by (simp add: update_booking_def Let_def)
qed


text \<open>
  Where the handler keeps to the pair of dates. In fallback mode, for a room whose
  interval list has an interval with the pair, the request overwrites \<open>guestName\<close>,
  \<open>guestPhone\<close>, \<open>guestEmail\<close>, \<open>notes\<close> and \<open>updatedAt\<close> of the first such interval
  and nothing else in the list, and answers 200; for a room that has an interval list
  without the pair it answers 404 with the store unchanged. In database mode it answers
  404, with the store unchanged, when no interval has the check-in date or no interval
  has the check-out date.
\<close>

lemma update_booking_guest_fields_only:
  assumes "truthy (req_checkIn d)" and "truthy (req_checkOut d)" and "truthy (req_guestName d)"
    and "ci = get_str (req_checkIn d)" and "co = get_str (req_checkOut d)"
  shows
    "(rooms_collection st = None \<and> fallback_find st rid = Some r \<and>
      bookedIntervals r = Some (pre @ i # post) \<and>
      (\<forall>j\<in>set pre. checkIn j \<noteq> None \<and> checkOut j \<noteq> None \<and>
                    \<not> (checkIn j = Some ci \<and> checkOut j = Some co)) \<and>
      checkIn i = Some ci \<and> checkOut i = Some co \<longrightarrow>
        fst (update_booking e st rid d) =
          succeed 200 (Some ''Booking updated successfully'') None None
        \<and> fallback_find (snd (update_booking e st rid d)) rid =
            Some (r\<lparr>bookedIntervals :=
                      Some (pre @
                        i\<lparr>guestName := Some (get_str (req_guestName d)),
                          guestPhone := Some (get_str (req_guestPhone d)),
                          guestEmail := Some (get_str (req_guestEmail d)),
                          notes' := Some (get_str (req_notes d)),
                          updatedAt := Some (now e)\<rparr> # post),
                    updated_at := now e\<rparr>))
     \<and> (rooms_collection st = None \<and> fallback_find st rid = Some r \<and>
        bookedIntervals r = Some ivs \<and>
        (\<forall>j\<in>set ivs. checkIn j \<noteq> None \<and> checkOut j \<noteq> None \<and>
                      \<not> (checkIn j = Some ci \<and> checkOut j = Some co)) \<longrightarrow>
          update_booking e st rid d = (failure 404 (Err ''Booking not found''), st))
     \<and> (rooms_collection st = Some coll \<and> db_ok e \<and>
        room_id_filter coll rid = Some (Some r, flt) \<and> distinct (map doc_id coll) \<and>
        (\<not> (\<exists>j\<in>set (get_intervals r). checkIn j = Some ci) \<or>
         \<not> (\<exists>j\<in>set (get_intervals r). checkOut j = Some co)) \<longrightarrow>
          update_booking e st rid d = (failure 404 (Err ''Booking not found''), st))"
  using update_booking_fallback_found[OF assms, of st rid r pre i post e]
    update_booking_fallback_not_found[OF assms, of st rid r ivs e]
    update_booking_mongo_not_found[OF assms, of st coll e rid r flt]
  by blast


lemma update_booking_guest_fields_only_example:
  "fst (update_booking example_env
        (fallback_store [example_room (Some [booking ''2024-06-01'' ''2024-06-05'' ''An'',
                                             booking ''2024-06-05'' ''2024-06-10'' ''Binh''])])
        (str ''0101'') (request ''2024-06-05'' ''2024-06-10'' ''Chi'')) =
     succeed 200 (Some ''Booking updated successfully'') None None
   \<and> map_option get_intervals
       (fallback_find (snd (update_booking example_env
          (fallback_store [example_room (Some [booking ''2024-06-01'' ''2024-06-05'' ''An'',
                                               booking ''2024-06-05'' ''2024-06-10'' ''Binh''])])
          (str ''0101'') (request ''2024-06-05'' ''2024-06-10'' ''Chi''))) (str ''0101'')) =
     Some [booking ''2024-06-01'' ''2024-06-05'' ''An'',
           (booking ''2024-06-05'' ''2024-06-10'' ''Chi'')\<lparr>updatedAt := Some (now example_env)\<rparr>]
   \<and> update_booking example_env
        (fallback_store [example_room (Some [booking ''2024-06-01'' ''2024-06-05'' ''An'',
                                             booking ''2024-06-05'' ''2024-06-10'' ''Binh''])])
        (str ''0101'') (request ''2024-07-01'' ''2024-07-03'' ''Chi'') =
     (failure 404 (Err ''Booking not found''),
      fallback_store [example_room (Some [booking ''2024-06-01'' ''2024-06-05'' ''An'',
                                          booking ''2024-06-05'' ''2024-06-10'' ''Binh''])])
   \<and> update_booking example_env
        (mongo_store [example_room (Some [booking ''2024-06-01'' ''2024-06-05'' ''An'',
                                          booking ''2024-06-05'' ''2024-06-10'' ''Binh''])])
        (str ''0101'') (request ''2024-07-01'' ''2024-07-03'' ''Chi'') =
     (failure 404 (Err ''Booking not found''),
      mongo_store [example_room (Some [booking ''2024-06-01'' ''2024-06-05'' ''An'',
                                       booking ''2024-06-05'' ''2024-06-10'' ''Binh''])])"
proof -
  let ?a = "booking ''2024-06-01'' ''2024-06-05'' ''An''"
  let ?b = "booking ''2024-06-05'' ''2024-06-10'' ''Binh''"
  let ?r = "example_room (Some [?a, ?b])"
  let ?d1 = "request ''2024-06-05'' ''2024-06-10'' ''Chi''"
  let ?d2 = "request ''2024-07-01'' ''2024-07-03'' ''Chi''"
  have v1: "truthy (req_checkIn ?d1)" "truthy (req_checkOut ?d1)" "truthy (req_guestName ?d1)"
    and v2: "truthy (req_checkIn ?d2)" "truthy (req_checkOut ?d2)" "truthy (req_guestName ?d2)"
    by (simp_all add: request_def truthy_def str_def)
  have h1: "rooms_collection (fallback_store [?r]) = None \<and>
      fallback_find (fallback_store [?r]) (str ''0101'') = Some ?r \<and>
      bookedIntervals ?r = Some ([?a] @ ?b # []) \<and>
      (\<forall>j\<in>set [?a]. checkIn j \<noteq> None \<and> checkOut j \<noteq> None \<and>
         \<not> (checkIn j = Some (get_str (req_checkIn ?d1)) \<and>
            checkOut j = Some (get_str (req_checkOut ?d1)))) \<and>
      checkIn ?b = Some (get_str (req_checkIn ?d1)) \<and>
      checkOut ?b = Some (get_str (req_checkOut ?d1))"
    by (simp add: fallback_store_def fallback_find_def example_room_def booking_def request_def
          get_str_def str_def)
  have h2: "rooms_collection (fallback_store [?r]) = None \<and>
      fallback_find (fallback_store [?r]) (str ''0101'') = Some ?r \<and>
      bookedIntervals ?r = Some [?a, ?b] \<and>
      (\<forall>j\<in>set [?a, ?b]. checkIn j \<noteq> None \<and> checkOut j \<noteq> None \<and>
         \<not> (checkIn j = Some (get_str (req_checkIn ?d2)) \<and>
            checkOut j = Some (get_str (req_checkOut ?d2))))"
    by (simp add: fallback_store_def fallback_find_def example_room_def booking_def request_def
          get_str_def str_def)
  have h3: "rooms_collection (mongo_store [?r]) = Some [?r] \<and> db_ok example_env \<and>
      room_id_filter [?r] (str ''0101'') = Some (Some ?r, StrId (str ''0101'')) \<and>
      distinct (map doc_id [?r]) \<and>
      (\<not> (\<exists>j\<in>set (get_intervals ?r). checkIn j = Some (get_str (req_checkIn ?d2))) \<or>
       \<not> (\<exists>j\<in>set (get_intervals ?r). checkOut j = Some (get_str (req_checkOut ?d2))))"
    by (simp add: mongo_store_def room_id_filter_def find_one_def example_room_def booking_def
          request_def get_str_def str_def example_env_def get_intervals_def)
  note a = update_booking_guest_fields_only[OF v1 refl refl,
      where st = "fallback_store [?r]" and rid = "str ''0101''" and r = ?r and pre = "[?a]"
        and i = ?b and post = "[]" and e = example_env]
  note b = update_booking_guest_fields_only[OF v2 refl refl,
      where st = "fallback_store [?r]" and rid = "str ''0101''" and r = ?r and ivs = "[?a, ?b]"
        and e = example_env]
  note c = update_booking_guest_fields_only[OF v2 refl refl,
      where st = "mongo_store [?r]" and rid = "str ''0101''" and r = ?r and coll = "[?r]"
        and flt = "StrId (str ''0101'')" and e = example_env]
  have 1: "fst (update_booking example_env (fallback_store [?r]) (str ''0101'') ?d1) =
             succeed 200 (Some ''Booking updated successfully'') None None"
    and 2: "fallback_find (snd (update_booking example_env (fallback_store [?r]) (str ''0101'') ?d1))
              (str ''0101'') =
            Some (?r\<lparr>bookedIntervals :=
                      Some ([?a] @
                        ?b\<lparr>guestName := Some (get_str (req_guestName ?d1)),
                          guestPhone := Some (get_str (req_guestPhone ?d1)),
                          guestEmail := Some (get_str (req_guestEmail ?d1)),
                          notes' := Some (get_str (req_notes ?d1)),
                          updatedAt := Some (now example_env)\<rparr> # []),
                    updated_at := now example_env\<rparr>)"
    using a h1 by blast+
  have 3: "update_booking example_env (fallback_store [?r]) (str ''0101'') ?d2 =
             (failure 404 (Err ''Booking not found''), fallback_store [?r])"
    using b h2 by blast
  have 4: "update_booking example_env (mongo_store [?r]) (str ''0101'') ?d2 =
             (failure 404 (Err ''Booking not found''), mongo_store [?r])"
    using c h3 by blast
  have 5: "?b\<lparr>guestName := Some (get_str (req_guestName ?d1)),
               guestPhone := Some (get_str (req_guestPhone ?d1)),
               guestEmail := Some (get_str (req_guestEmail ?d1)),
               notes' := Some (get_str (req_notes ?d1)),
               updatedAt := Some (now example_env)\<rparr> =
           (booking ''2024-06-05'' ''2024-06-10'' ''Chi'')\<lparr>updatedAt := Some (now example_env)\<rparr>"
    by (simp add: booking_def request_def get_str_def)
  show ?thesis
    unfolding 1 2 3 4 by (simp add: get_intervals_def 5)
qed


text \<open>
  The database branch when the filter selects the room: the answer is 200 and the stored
  room is the old one with the guest fields of the interval at the index bound to \<open>$\<close>
  overwritten; the dates of every interval and every other interval stay as they were.
\<close>

lemma find_conj_first:
  "find P xs = Some r \<Longrightarrow> Q r \<Longrightarrow> find (\<lambda>x. P x \<and> Q x) xs = Some r"
  by (induction xs) (auto split: if_splits)

lemma find_update_first_conj:
  "find P xs = Some r \<Longrightarrow> Q r \<Longrightarrow> P (f r) \<Longrightarrow>
   find P (update_first (\<lambda>x. P x \<and> Q x) f xs) = Some (f r)"
  by (induction xs) (auto split: if_splits)

lemma get_intervals_set_positional:
  "get_intervals (set_positional e ci co f r) =
     (if positional e (get_intervals r) ci co < length (get_intervals r)
      then (get_intervals r)[positional e (get_intervals r) ci co :=
             f (get_intervals r ! positional e (get_intervals r) ci co)]
      else get_intervals r)"
  by (simp add: set_positional_def Let_def get_intervals_def)

lemma set_positional_frame:
  assumes "f = set_guest_fields g ph em nt t"
  shows "doc_id (set_positional e ci co f r) = doc_id r"
    and "length (get_intervals (set_positional e ci co f r)) = length (get_intervals r)"
    and "map checkIn (get_intervals (set_positional e ci co f r)) = map checkIn (get_intervals r)"
    and "map checkOut (get_intervals (set_positional e ci co f r)) = map checkOut (get_intervals r)"
    and "j \<noteq> positional e (get_intervals r) ci co \<Longrightarrow>
         get_intervals (set_positional e ci co f r) ! j = get_intervals r ! j"
proof -
  show "doc_id (set_positional e ci co f r) = doc_id r"
    by (simp add: set_positional_def Let_def)
  show "length (get_intervals (set_positional e ci co f r)) = length (get_intervals r)"
    by (simp add: get_intervals_set_positional)
  show "map checkIn (get_intervals (set_positional e ci co f r)) = map checkIn (get_intervals r)"
    by (simp add: get_intervals_set_positional assms set_guest_fields_def map_update
          list_update_same_conv)
  show "map checkOut (get_intervals (set_positional e ci co f r)) = map checkOut (get_intervals r)"
    by (simp add: get_intervals_set_positional assms set_guest_fields_def map_update
          list_update_same_conv)
  show "get_intervals (set_positional e ci co f r) ! j = get_intervals r ! j"
    if "j \<noteq> positional e (get_intervals r) ci co"
    using that by (simp add: get_intervals_set_positional)
qed

lemma update_booking_mongo_found:
  assumes v: "truthy (req_checkIn d)" "truthy (req_checkOut d)" "truthy (req_guestName d)"
    and c: "ci = get_str (req_checkIn d)" "co = get_str (req_checkOut d)"
    and f: "f = set_guest_fields (get_str (req_guestName d)) (get_str (req_guestPhone d))
                  (get_str (req_guestEmail d)) (get_str (req_notes d)) (now e)"
    and s: "rooms_collection st = Some coll" "db_ok e"
      "room_id_filter coll rid = Some (Some r, flt)"
    and m: "\<exists>j\<in>set (get_intervals r). checkIn j = Some ci"
      "\<exists>j\<in>set (get_intervals r). checkOut j = Some co"
  shows "fst (update_booking e st rid d) =
           succeed 200 (Some ''Booking updated successfully'') None None"
    and "\<exists>coll'. rooms_collection (snd (update_booking e st rid d)) = Some coll' \<and>
           find_one coll' flt = Some (set_positional e ci co f r)"
proof -
  let ?sel = "\<lambda>x. doc_id x = flt \<and>
      (list_ex (\<lambda>i. checkIn i = Some ci) (get_intervals x) \<and>
       list_ex (\<lambda>i. checkOut i = Some co) (get_intervals x))"
  have bf: "booking_filter flt ci co = ?sel"
    by (auto simp: booking_filter_def)
  have fr: "find (\<lambda>x. doc_id x = flt) coll = Some r"
    using s(3) by (rule room_id_filter_find)
  have q: "list_ex (\<lambda>i. checkIn i = Some ci) (get_intervals r) \<and>
           list_ex (\<lambda>i. checkOut i = Some co) (get_intervals r)"
    using m by (simp add: list_ex_iff)
  have fs: "find ?sel coll = Some r"
    using fr q by (rule find_conj_first)
  have d: "doc_id (set_positional e ci co f r) = flt"
    using fr by (auto simp: set_positional_def Let_def find_Some_iff)
  have fu: "find (\<lambda>x. doc_id x = flt) (update_first ?sel (set_positional e ci co f) coll) =
              Some (set_positional e ci co f r)"
    using fr q d by (rule find_update_first_conj)
  have mc: "matched_count (update_one (booking_filter flt ci co) (set_positional e ci co f) coll) = 1"
    and uc: "updated_coll (update_one (booking_filter flt ci co) (set_positional e ci co f) coll) =
               update_first ?sel (set_positional e ci co f) coll"
    unfolding bf using fs by (simp_all add: update_one_def)
  show "fst (update_booking e st rid d) =
           succeed 200 (Some ''Booking updated successfully'') None None"
    using v s mc unfolding c f by (simp add: update_booking_def Let_def)
  have "rooms_collection (snd (update_booking e st rid d)) =
          Some (update_first ?sel (set_positional e ci co f) coll)"
    using v s mc uc unfolding c f by (simp add: update_booking_def Let_def)
  then show "\<exists>coll'. rooms_collection (snd (update_booking e st rid d)) = Some coll' \<and>
           find_one coll' flt = Some (set_positional e ci co f r)"
    using fu by (simp add: find_one_def)
qed


text \<open>
  The filter of the database branch has one condition for each date and no
  \<open>$elemMatch\<close>: a room in which one interval has the check-in date and another one the
  check-out date is selected, and the answer is 200, although no interval has the pair.
\<close>

lemma update_booking_mongo_cross_match:
  "\<not> list_ex (\<lambda>i. checkIn i = Some (str ''2024-06-01'') \<and> checkOut i = Some (str ''2024-06-10''))
         [booking ''2024-06-01'' ''2024-06-05'' ''An'', booking ''2024-06-05'' ''2024-06-10'' ''Binh'']
   \<and> fst (update_booking example_env
        (mongo_store [example_room (Some [booking ''2024-06-01'' ''2024-06-05'' ''An'',
                                          booking ''2024-06-05'' ''2024-06-10'' ''Binh''])])
        (str ''0101'') (request ''2024-06-01'' ''2024-06-10'' ''Chi'')) =
     succeed 200 (Some ''Booking updated successfully'') None None"
  by code_simp


text \<open>
  C8. The handler departs from the claim in fallback mode: for a stored room whose record
  has no \<open>bookedIntervals\<close> field, a request with its three required fields is answered
  200, \<open>Booking updated successfully\<close>, and nothing is written, although no interval has
  the pair of dates and the claim asks for not-found. The same room in database mode,
  and a fallback room whose list is empty, are answered 404 with the store unchanged.
\<close>

theorem update_booking_without_interval_list:
  assumes "truthy (req_checkIn d)" and "truthy (req_checkOut d)" and "truthy (req_guestName d)"
    and "bookedIntervals r = None"
  shows
    "(rooms_collection st = None \<and> fallback_find st rid = Some r \<longrightarrow>
        update_booking e st rid d =
          (\<lparr>status = 200, success = True, message = Some ''Booking updated successfully'',
            error = None, data = None, source = None\<rparr>, st))
     \<and> (rooms_collection st = Some coll \<and> db_ok e \<and>
        room_id_filter coll rid = Some (Some r, flt) \<and> distinct (map doc_id coll) \<longrightarrow>
          update_booking e st rid d =
            (\<lparr>status = 404, success = False, message = None,
              error = Some (Err ''Booking not found''), data = None, source = None\<rparr>, st))
     \<and> (rooms_collection st = None \<and>
        fallback_find st rid = Some (r\<lparr>bookedIntervals := Some []\<rparr>) \<longrightarrow>
          update_booking e st rid d =
            (\<lparr>status = 404, success = False, message = None,
              error = Some (Err ''Booking not found''), data = None, source = None\<rparr>, st))"
proof (intro conjI impI)
  assume "rooms_collection st = None \<and> fallback_find st rid = Some r"
  then show "update_booking e st rid d =
      (\<lparr>status = 200, success = True, message = Some ''Booking updated successfully'',
        error = None, data = None, source = None\<rparr>, st)"
    using assms by (simp add: update_booking_def Let_def succeed_def)
next
  assume a: "rooms_collection st = Some coll \<and> db_ok e \<and>
        room_id_filter coll rid = Some (Some r, flt) \<and> distinct (map doc_id coll)"
  have n: "\<not> (\<exists>j\<in>set (get_intervals r). checkIn j = Some (get_str (req_checkIn d))) \<or>
           \<not> (\<exists>j\<in>set (get_intervals r). checkOut j = Some (get_str (req_checkOut d)))"
    using assms(4) by (simp add: get_intervals_def)
  from a have s: "rooms_collection st = Some coll" "db_ok e"
    "room_id_filter coll rid = Some (Some r, flt)" "distinct (map doc_id coll)"
    by simp_all
  show "update_booking e st rid d =
      (\<lparr>status = 404, success = False, message = None,
        error = Some (Err ''Booking not found''), data = None, source = None\<rparr>, st)"
    using update_booking_mongo_not_found[OF assms(1-3) refl refl s n]
    by (simp add: failure_def)
next
  assume a: "rooms_collection st = None \<and>
        fallback_find st rid = Some (r\<lparr>bookedIntervals := Some []\<rparr>)"
  then show "update_booking e st rid d =
      (\<lparr>status = 404, success = False, message = None,
        error = Some (Err ''Booking not found''), data = None, source = None\<rparr>, st)"
    using assms(1-3) by (simp add: update_booking_def Let_def failure_def)
qed

theorem update_booking_without_interval_list_witness:
  "update_booking example_env (fallback_store [example_room None]) (str ''0101'')
     (request ''2024-06-01'' ''2024-06-05'' ''An'') =
     (\<lparr>status = 200, success = True, message = Some ''Booking updated successfully'',
       error = None, data = None, source = None\<rparr>,
      fallback_store [example_room None])
   \<and> update_booking example_env (mongo_store [example_room None]) (str ''0101'')
       (request ''2024-06-01'' ''2024-06-05'' ''An'') =
     (\<lparr>status = 404, success = False, message = None,
       error = Some (Err ''Booking not found''), data = None, source = None\<rparr>,
      mongo_store [example_room None])
   \<and> update_booking example_env (fallback_store [example_room (Some [])]) (str ''0101'')
       (request ''2024-06-01'' ''2024-06-05'' ''An'') =
     (\<lparr>status = 404, success = False, message = None,
       error = Some (Err ''Booking not found''), data = None, source = None\<rparr>,
      fallback_store [example_room (Some [])])"
proof -
  let ?r = "example_room None"
  let ?d = "request ''2024-06-01'' ''2024-06-05'' ''An''"
  have v: "truthy (req_checkIn ?d)" "truthy (req_checkOut ?d)" "truthy (req_guestName ?d)"
    by (simp_all add: request_def truthy_def str_def)
  have b: "bookedIntervals ?r = None"
    by (simp add: example_room_def)
  have h1: "rooms_collection (fallback_store [?r]) = None \<and>
      fallback_find (fallback_store [?r]) (str ''0101'') = Some ?r"
    by (simp add: fallback_store_def fallback_find_def example_room_def)
  have h2: "rooms_collection (mongo_store [?r]) = Some [?r] \<and> db_ok example_env \<and>
      room_id_filter [?r] (str ''0101'') = Some (Some ?r, StrId (str ''0101'')) \<and>
      distinct (map doc_id [?r])"
    by (simp add: mongo_store_def room_id_filter_def find_one_def example_room_def
          example_env_def)
  have h3: "rooms_collection (fallback_store [example_room (Some [])]) = None \<and>
      fallback_find (fallback_store [example_room (Some [])]) (str ''0101'') =
        Some (?r\<lparr>bookedIntervals := Some []\<rparr>)"
    by (simp add: fallback_store_def fallback_find_def example_room_def)
  note t1 = update_booking_without_interval_list[OF v b,
      where st = "fallback_store [?r]" and rid = "str ''0101''" and e = example_env]
  note t2 = update_booking_without_interval_list[OF v b,
      where st = "mongo_store [?r]" and rid = "str ''0101''" and e = example_env
        and coll = "[?r]" and flt = "StrId (str ''0101'')"]
  note t3 = update_booking_without_interval_list[OF v b,
      where st = "fallback_store [example_room (Some [])]" and rid = "str ''0101''"
        and e = example_env]
  have 1: "update_booking example_env (fallback_store [?r]) (str ''0101'') ?d =
     (\<lparr>status = 200, success = True, message = Some ''Booking updated successfully'',
       error = None, data = None, source = None\<rparr>, fallback_store [?r])"
    using t1 h1 by blast
  have 2: "update_booking example_env (mongo_store [?r]) (str ''0101'') ?d =
     (\<lparr>status = 404, success = False, message = None,
       error = Some (Err ''Booking not found''), data = None, source = None\<rparr>,
      mongo_store [?r])"
    using t2 h2 by blast
  have 3: "update_booking example_env (fallback_store [example_room (Some [])]) (str ''0101'') ?d =
     (\<lparr>status = 404, success = False, message = None,
       error = Some (Err ''Booking not found''), data = None, source = None\<rparr>,
      fallback_store [example_room (Some [])])"
    using t3 h3 by blast
  from 1 2 3 show ?thesis by blast
qed

section \<open>The identifier of a new room\<close>

lemma ascii_digit_isdigit_char: "ascii_digit c \<Longrightarrow> isdigit_char c"
  by (simp add: ascii_digit_def isdigit_char_def isdecimal_char_def decimal_blocks_def)

lemma check_custom_id_text:
  "cid \<noteq> [] \<Longrightarrow>
   check_custom_id (Some (Text cid)) =
     (if length cid = 4 \<and> list_all isdigit_char cid then Id_passes else Id_rejected)"
  by (simp add: check_custom_id_def isdigit_def)

lemma add_room_id_rejected:
  assumes "has_required_fields d" "check_custom_id (custom_id d) = Id_rejected"
  shows "add_room e st d =
           (failure 400 (Err ''Room ID must be exactly 4 digits (e.g., 0101, 0201)''), st)"
  using assms by (simp add: add_room_def)

lemma add_room_id_passes:
  assumes "has_required_fields d" "check_custom_id (custom_id d) = Id_passes"
  shows "fst (add_room e st d) \<noteq>
           failure 400 (Err ''Room ID must be exactly 4 digits (e.g., 0101, 0201)'')"
  using assms
  by (auto simp: add_room_def failure_def succeed_def
        split: option.splits conv.splits prod.splits)

lemma add_room_validation:
  assumes "has_required_fields d" "custom_id d = Some (Text cid)" "cid \<noteq> []"
  shows "add_room e st d =
           (failure 400 (Err ''Room ID must be exactly 4 digits (e.g., 0101, 0201)''), st)
         \<longleftrightarrow> \<not> (length cid = 4 \<and> list_all isdigit_char cid)"
proof (cases "length cid = 4 \<and> list_all isdigit_char cid")
  case True
  then have "check_custom_id (custom_id d) = Id_passes"
    using assms by (simp add: check_custom_id_text)
  from add_room_id_passes[OF assms(1) this, of e st] True show ?thesis by auto
next
  case False
  then have "check_custom_id (custom_id d) = Id_rejected"
    using assms by (simp add: check_custom_id_text)
  from add_room_id_rejected[OF assms(1) this, of e st] False show ?thesis by simp
qed

lemma add_room_false_custom_id:
  assumes "custom_id d = Some (Text []) \<or> custom_id d = Some (Not_text False)"
  shows "add_room e st d = add_room e st (d\<lparr>custom_id := None\<rparr>)"
proof -
  have c: "check_custom_id (custom_id d) = Id_passes" "supplied_id (custom_id d) = None"
    using assms by (auto simp: check_custom_id_def supplied_id_def)
  have n: "check_custom_id None = Id_passes" "supplied_id None = None"
    by (simp_all add: check_custom_id_def supplied_id_def)
  show ?thesis
    by (simp add: add_room_def has_required_fields_def new_room_def c n
          split: option.splits conv.splits)
qed

text \<open>
  A true \<open>custom_id\<close> that is not a string: \<open>.isdigit()\<close> raises and the answer is 500.
\<close>

lemma add_room_custom_id_not_text:
  assumes "has_required_fields d" "custom_id d = Some (Not_text True)"
  shows "add_room e st d = (failure 500 Exception_text, st)"
  using assms by (simp add: add_room_def check_custom_id_def)

text \<open>
  C3, as amended. A create request that has the required fields and whose \<open>custom_id\<close> is
  a non-empty string is answered with the validation error 400 exactly when the
  identifier is not four characters that \<open>str.isdigit\<close> accepts, which the digits of every
  script are; four ASCII digits always pass. \<open>101\<close>, \<open>10101\<close> and \<open>01a1\<close> are refused, and
  \<open>0101\<close> is accepted: with no room of that identifier the answer is 201 and the room is
  stored under it. A \<open>custom_id\<close> that is the empty string, or false, is treated as a
  request without one; one that is true and not a string makes \<open>isdigit\<close> raise, and the
  answer is 500 with the store unchanged.
\<close>

theorem add_room_custom_id_validation:
  assumes "has_required_fields d"
  shows
    "(custom_id d = Some (Text cid) \<and> cid \<noteq> [] \<longrightarrow>
        (add_room e st d =
           (failure 400 (Err ''Room ID must be exactly 4 digits (e.g., 0101, 0201)''), st)
         \<longleftrightarrow> \<not> (length cid = 4 \<and> list_all isdigit_char cid))
        \<and> (length cid = 4 \<and> list_all ascii_digit cid \<longrightarrow>
             add_room e st d \<noteq>
               (failure 400 (Err ''Room ID must be exactly 4 digits (e.g., 0101, 0201)''), st)))
     \<and> (custom_id d = Some (Text cid) \<and>
        (cid = str ''101'' \<or> cid = str ''10101'' \<or> cid = str ''01a1'') \<longrightarrow>
          add_room e st d =
            (failure 400 (Err ''Room ID must be exactly 4 digits (e.g., 0101, 0201)''), st))
     \<and> (custom_id d = Some (Text (str ''0101'')) \<and> req_price d = Some (Converts p) \<and>
        req_capacity d = Some (Converts c) \<and> rooms_collection st = None \<and>
        fallback_find st (str ''0101'') = None \<longrightarrow>
          status (fst (add_room e st d)) = 201
          \<and> fallback_find (snd (add_room e st d)) (str ''0101'') =
              Some \<lparr>doc_id = StrId (str ''0101''), name = get_str (req_name d), price = p,
                    persons = c, description = get_str (req_description d),
                    amenities = (case req_amenities d of None \<Rightarrow> [] | Some a \<Rightarrow> a),
                    bookedIntervals = Some [], created_at = utcnow e, updated_at = utcnow e\<rparr>)
     \<and> (custom_id d = Some (Text []) \<or> custom_id d = Some (Not_text False) \<longrightarrow>
          add_room e st d = add_room e st (d\<lparr>custom_id := None\<rparr>))
     \<and> (custom_id d = Some (Not_text True) \<longrightarrow>
          add_room e st d =
            (\<lparr>status = 500, success = False, message = None, error = Some Exception_text,
              data = None, source = None\<rparr>, st))"
proof -
  have 1: "add_room e st d =
           (failure 400 (Err ''Room ID must be exactly 4 digits (e.g., 0101, 0201)''), st)
         \<longleftrightarrow> \<not> (length cid = 4 \<and> list_all isdigit_char cid)"
    if "custom_id d = Some (Text cid)" "cid \<noteq> []"
    using add_room_validation[OF assms that] .
  have 2: "list_all isdigit_char cid" if "list_all ascii_digit cid"
    using that by (induction cid) (auto intro: ascii_digit_isdigit_char)
  have 3: "cid \<noteq> [] \<and> \<not> (length cid = 4 \<and> list_all isdigit_char cid)"
    if "cid = str ''101'' \<or> cid = str ''10101'' \<or> cid = str ''01a1''"
  proof -
    have "str ''101'' \<noteq> [] \<and> length (str ''101'') \<noteq> 4"
      "str ''10101'' \<noteq> [] \<and> length (str ''10101'') \<noteq> 4"
      "str ''01a1'' \<noteq> [] \<and> \<not> list_all isdigit_char (str ''01a1'')"
      by (simp_all add: str_def isdigit_char_def isdecimal_char_def decimal_blocks_def
            other_digit_blocks_def)
    with that show ?thesis by auto
  qed
  have 4: "status (fst (add_room e st d)) = 201
          \<and> fallback_find (snd (add_room e st d)) (str ''0101'') =
              Some \<lparr>doc_id = StrId (str ''0101''), name = get_str (req_name d), price = p,
                    persons = c, description = get_str (req_description d),
                    amenities = (case req_amenities d of None \<Rightarrow> [] | Some a \<Rightarrow> a),
                    bookedIntervals = Some [], created_at = utcnow e, updated_at = utcnow e\<rparr>"
    if h: "custom_id d = Some (Text (str ''0101''))" "req_price d = Some (Converts p)"
      "req_capacity d = Some (Converts c)" "rooms_collection st = None"
      "fallback_find st (str ''0101'') = None"
  proof -
    have ne: "str ''0101'' \<noteq> []" by (simp add: str_def)
    have ok: "length (str ''0101'') = 4 \<and> list_all isdigit_char (str ''0101'')"
      by (simp add: str_def isdigit_char_def isdecimal_char_def decimal_blocks_def)
    have c: "check_custom_id (custom_id d) = Id_passes"
      using h(1) ne ok by (simp add: check_custom_id_text)
    have s: "supplied_id (custom_id d) = Some (str ''0101'')"
      using h(1) ne by (simp add: supplied_id_def)
    have f: "find (\<lambda>r. doc_id r = StrId (str ''0101'')) (fallback_rooms st) = None"
      using h(5) by (simp add: fallback_find_def)
    show ?thesis
      using assms c s h(2-5) f
      by (simp add: add_room_def succeed_def save_fallback_data_def fallback_find_def
            find_append_last new_room_def)
  qed
  show ?thesis
  proof (intro conjI impI)
    assume "custom_id d = Some (Text cid) \<and> cid \<noteq> []"
    then show "add_room e st d =
           (failure 400 (Err ''Room ID must be exactly 4 digits (e.g., 0101, 0201)''), st)
         \<longleftrightarrow> \<not> (length cid = 4 \<and> list_all isdigit_char cid)"
      using 1 by blast
  next
    assume "custom_id d = Some (Text cid) \<and> cid \<noteq> []"
      and "length cid = 4 \<and> list_all ascii_digit cid"
    then show "add_room e st d \<noteq>
           (failure 400 (Err ''Room ID must be exactly 4 digits (e.g., 0101, 0201)''), st)"
      using 1 2 by blast
  next
    assume h: "custom_id d = Some (Text cid) \<and>
        (cid = str ''101'' \<or> cid = str ''10101'' \<or> cid = str ''01a1'')"
    then have "cid \<noteq> [] \<and> \<not> (length cid = 4 \<and> list_all isdigit_char cid)"
      using 3 by blast
    with h show "add_room e st d =
           (failure 400 (Err ''Room ID must be exactly 4 digits (e.g., 0101, 0201)''), st)"
      using 1 by blast
  next
    assume h: "custom_id d = Some (Text (str ''0101'')) \<and> req_price d = Some (Converts p) \<and>
        req_capacity d = Some (Converts c) \<and> rooms_collection st = None \<and>
        fallback_find st (str ''0101'') = None"
    then have r: "status (fst (add_room e st d)) = 201
          \<and> fallback_find (snd (add_room e st d)) (str ''0101'') =
              Some \<lparr>doc_id = StrId (str ''0101''), name = get_str (req_name d), price = p,
                    persons = c, description = get_str (req_description d),
                    amenities = (case req_amenities d of None \<Rightarrow> [] | Some a \<Rightarrow> a),
                    bookedIntervals = Some [], created_at = utcnow e, updated_at = utcnow e\<rparr>"
      using 4 by blast
    from r show "status (fst (add_room e st d)) = 201" by (rule conjunct1)
    from r show "fallback_find (snd (add_room e st d)) (str ''0101'') =
              Some \<lparr>doc_id = StrId (str ''0101''), name = get_str (req_name d), price = p,
                    persons = c, description = get_str (req_description d),
                    amenities = (case req_amenities d of None \<Rightarrow> [] | Some a \<Rightarrow> a),
                    bookedIntervals = Some [], created_at = utcnow e, updated_at = utcnow e\<rparr>"
      by (rule conjunct2)
  next
    assume "custom_id d = Some (Text []) \<or> custom_id d = Some (Not_text False)"
    then show "add_room e st d = add_room e st (d\<lparr>custom_id := None\<rparr>)"
      by (rule add_room_false_custom_id)
  next
    assume "custom_id d = Some (Not_text True)"
    with assms show "add_room e st d =
        (\<lparr>status = 500, success = False, message = None, error = Some Exception_text,
          data = None, source = None\<rparr>, st)"
      by (simp add: add_room_custom_id_not_text failure_def)
  qed
qed

theorem add_room_custom_id_validation_witness:
  "add_room example_env (fallback_store []) (room_request_with (Some (Text (str ''01a1'')))) =
     (failure 400 (Err ''Room ID must be exactly 4 digits (e.g., 0101, 0201)''), fallback_store [])
   \<and> status (fst (add_room example_env (fallback_store [])
        (room_request_with (Some (Text (str ''0101'')))))) = 201
   \<and> fallback_find (snd (add_room example_env (fallback_store [])
        (room_request_with (Some (Text (str ''0101'')))))) (str ''0101'') =
       Some \<lparr>doc_id = StrId (str ''0101''), name = str ''Orchid'', price = 650, persons = 3,
             description = str ''Lake view'', amenities = [str ''wifi''],
             bookedIntervals = Some [], created_at = utcnow example_env,
             updated_at = utcnow example_env\<rparr>
   \<and> add_room example_env (fallback_store []) (room_request_with (Some (Text []))) =
       add_room example_env (fallback_store []) (room_request_with None)
   \<and> add_room example_env (fallback_store []) (room_request_with (Some (Not_text True))) =
       (\<lparr>status = 500, success = False, message = None, error = Some Exception_text,
         data = None, source = None\<rparr>, fallback_store [])"
proof -
  have r: "has_required_fields (room_request_with x)" for x
    by (simp add: has_required_fields_def room_request_with_def)
  have c: "custom_id (room_request_with x) = x" for x
    by (simp add: room_request_with_def)
  have u: "(room_request_with x)\<lparr>custom_id := None\<rparr> = room_request_with None" for x
    by (simp add: room_request_with_def)
  have h: "custom_id (room_request_with (Some (Text (str ''0101'')))) = Some (Text (str ''0101'')) \<and>
      req_price (room_request_with (Some (Text (str ''0101'')))) = Some (Converts 650) \<and>
      req_capacity (room_request_with (Some (Text (str ''0101'')))) = Some (Converts 3) \<and>
      rooms_collection (fallback_store []) = None \<and>
      fallback_find (fallback_store []) (str ''0101'') = None"
    by (simp add: room_request_with_def fallback_store_def fallback_find_def)
  have f: "get_str (req_name (room_request_with x)) = str ''Orchid''"
    "get_str (req_description (room_request_with x)) = str ''Lake view''"
    "(case req_amenities (room_request_with x) of None \<Rightarrow> [] | Some a \<Rightarrow> a) = [str ''wifi'']"
    for x
    by (simp_all add: room_request_with_def get_str_def)
  note a = add_room_custom_id_validation[OF r[of "Some (Text (str ''01a1''))"],
      where e = example_env and st = "fallback_store []" and cid = "str ''01a1''"]
  note b = add_room_custom_id_validation[OF r[of "Some (Text (str ''0101''))"],
      where e = example_env and st = "fallback_store []" and p = 650 and c = 3, unfolded f]
  note n = add_room_custom_id_validation[OF r[of "Some (Text [])"],
      where e = example_env and st = "fallback_store []", unfolded u]
  have 1: "add_room example_env (fallback_store [])
             (room_request_with (Some (Text (str ''01a1'')))) =
     (failure 400 (Err ''Room ID must be exactly 4 digits (e.g., 0101, 0201)''), fallback_store [])"
    using a c by blast
  have 2: "status (fst (add_room example_env (fallback_store [])
        (room_request_with (Some (Text (str ''0101'')))))) = 201
   \<and> fallback_find (snd (add_room example_env (fallback_store [])
        (room_request_with (Some (Text (str ''0101'')))))) (str ''0101'') =
       Some \<lparr>doc_id = StrId (str ''0101''), name = str ''Orchid'', price = 650, persons = 3,
             description = str ''Lake view'', amenities = [str ''wifi''],
             bookedIntervals = Some [], created_at = utcnow example_env,
             updated_at = utcnow example_env\<rparr>"
    using b h by blast
  have 3: "add_room example_env (fallback_store []) (room_request_with (Some (Text []))) =
       add_room example_env (fallback_store []) (room_request_with None)"
    using n c by blast
  have 4: "add_room example_env (fallback_store []) (room_request_with (Some (Not_text True))) =
       (\<lparr>status = 500, success = False, message = None, error = Some Exception_text,
         data = None, source = None\<rparr>, fallback_store [])"
    using add_room_custom_id_validation[OF r[of "Some (Not_text True)"],
        where e = example_env and st = "fallback_store []"] c
    by blast
  from 1 2 3 4 show ?thesis by blast
qed

text \<open>
  C3, as stated, fails for four digits that are not ASCII: the Arabic-Indic digits
  U+0661 to U+0664 pass \<open>isdigit\<close>, the answer is 201 and the room is stored under that
  identifier.
\<close>

theorem add_room_accepts_non_ascii_digits:
  "\<not> list_all ascii_digit [1633, 1634, 1635, 1636]
   \<and> status (fst (add_room example_env (fallback_store [])
        (room_request_with (Some (Text [1633, 1634, 1635, 1636]))))) = 201
   \<and> map_option doc_id
       (fallback_find (snd (add_room example_env (fallback_store [])
          (room_request_with (Some (Text [1633, 1634, 1635, 1636]))))) [1633, 1634, 1635, 1636]) =
     Some (StrId [1633, 1634, 1635, 1636])"
  by (simp add: ascii_digit_def add_room_def has_required_fields_def check_custom_id_def
        supplied_id_def room_request_with_def isdigit_def isdigit_char_def
        isdecimal_char_def decimal_blocks_def fallback_store_def fallback_find_def
        save_fallback_data_def new_room_def succeed_def)

section \<open>Creating a room under an identifier that exists\<close>

lemma add_room_created:
  assumes "add_room e st d = (r, st')" "status r = 201"
  shows "\<exists>p c i. r = succeed 201 (Some ''Room added successfully'')
                     (Some (Room (convert_room_for_api (new_room e d p c i)))) None \<and>
           ((rooms_collection st = None \<and>
             (\<exists>s. i = StrId s \<and> fallback_find st s = None \<and>
                  st' = save_fallback_data e
                          (st\<lparr>fallback_rooms := fallback_rooms st @ [new_room e d p c i]\<rparr>)))
            \<or> (\<exists>coll. rooms_collection st = Some coll \<and>
                  (i = ObjId (new_object_id e) \<or> (\<exists>s. i = StrId s)) \<and>
                  st' = sync_mongodb_to_json e
                          (st\<lparr>rooms_collection :=
                                Some (replace_one_upsert i (new_room e d p c i) coll)\<rparr>)))"
proof (cases "rooms_collection st")
  case None
  with assms show ?thesis
    by (auto simp: add_room_def failure_def succeed_def
          split: if_splits option.splits conv.splits id_check.splits)
next
  case (Some coll)
  with assms show ?thesis
    by (auto simp: add_room_def failure_def succeed_def
          split: if_splits option.splits conv.splits id_check.splits)
qed

lemma supplied_id_passes:
  assumes "supplied_id v = Some s" "check_custom_id v = Id_passes"
  shows "v = Some (Text s) \<and> s \<noteq> [] \<and> length s = 4"
  using assms
  by (auto simp: supplied_id_def check_custom_id_def
        split: option.splits json_id.splits if_splits)

lemma add_room_fallback_exists:
  assumes "has_required_fields d" "check_custom_id (custom_id d) = Id_passes"
    and "req_price d = Some (Converts p)" "req_capacity d = Some (Converts c)"
    and "rooms_collection st = None"
    and "(case supplied_id (custom_id d) of Some s \<Rightarrow> Some s
          | None \<Rightarrow> new_id (fallback_rooms st)) = Some i"
    and "fallback_find st i = Some x"
  shows "add_room e st d = (failure 400 (Room_exists i), st)"
  using assms by (simp add: add_room_def)

lemma add_room_mongo_exists:
  assumes "has_required_fields d" "check_custom_id (custom_id d) = Id_passes"
    and "req_price d = Some (Converts p)" "req_capacity d = Some (Converts c)"
    and "rooms_collection st = Some coll" "db_ok e" "supplied_id (custom_id d) = Some s"
    and "find_one coll (StrId s) = Some x"
  shows "add_room e st d = (failure 400 (Room_exists s), st)"
  using assms by (simp add: add_room_def)

text \<open>
  C4. A create request that resolves to an identifier a stored room already has is
  answered with the conflict error 400 (\<open>Room with ID ... already exists\<close>) and the
  store, the stored room included, stays as it was: in fallback mode for a supplied or a
  synthesised identifier, in database mode for a supplied one. In particular, after a
  create request was answered 201, a second request that resolves to the identifier of
  the room just created fails so. (A generated \<open>ObjectId\<close> has twelve bytes.)
\<close>

theorem add_room_duplicate_id:
  assumes "has_required_fields d'" and "check_custom_id (custom_id d') = Id_passes"
    and "req_price d' = Some (Converts p)" and "req_capacity d' = Some (Converts c)"
  shows
    "(rooms_collection st' = None \<and>
      (case supplied_id (custom_id d') of Some s \<Rightarrow> Some s
       | None \<Rightarrow> new_id (fallback_rooms st')) = Some i \<and>
      fallback_find st' i = Some x \<longrightarrow>
        add_room e' st' d' = (failure 400 (Room_exists i), st'))
     \<and> (rooms_collection st' = Some coll \<and> db_ok e' \<and> supplied_id (custom_id d') = Some i \<and>
        find_one coll (StrId i) = Some x \<longrightarrow>
          add_room e' st' d' = (failure 400 (Room_exists i), st'))
     \<and> (add_room e st d = (r, st') \<and> status r = 201 \<and> data r = Some (Room a) \<and>
        length (new_object_id e) = 12 \<and>
        (case rooms_collection st' of
           None \<Rightarrow>
             (case supplied_id (custom_id d') of Some s \<Rightarrow> Some s
              | None \<Rightarrow> new_id (fallback_rooms st')) = Some (api_id a)
         | Some coll' \<Rightarrow> db_ok e' \<and> supplied_id (custom_id d') = Some (api_id a)) \<longrightarrow>
          add_room e' st' d' = (failure 400 (Room_exists (api_id a)), st'))"
proof (intro conjI impI)
  assume "rooms_collection st' = None \<and>
      (case supplied_id (custom_id d') of Some s \<Rightarrow> Some s
       | None \<Rightarrow> new_id (fallback_rooms st')) = Some i \<and>
      fallback_find st' i = Some x"
  then show "add_room e' st' d' = (failure 400 (Room_exists i), st')"
    using add_room_fallback_exists[OF assms] by blast
next
  assume "rooms_collection st' = Some coll \<and> db_ok e' \<and> supplied_id (custom_id d') = Some i \<and>
        find_one coll (StrId i) = Some x"
  then show "add_room e' st' d' = (failure 400 (Room_exists i), st')"
    using add_room_mongo_exists[OF assms] by blast
next
  assume h: "add_room e st d = (r, st') \<and> status r = 201 \<and> data r = Some (Room a) \<and>
        length (new_object_id e) = 12 \<and>
        (case rooms_collection st' of
           None \<Rightarrow>
             (case supplied_id (custom_id d') of Some s \<Rightarrow> Some s
              | None \<Rightarrow> new_id (fallback_rooms st')) = Some (api_id a)
         | Some coll' \<Rightarrow> db_ok e' \<and> supplied_id (custom_id d') = Some (api_id a))"
  then have first: "add_room e st d = (r, st')" "status r = 201" by simp_all
  from add_room_created[OF first] obtain p1 c1 i1 where
    r: "r = succeed 201 (Some ''Room added successfully'')
               (Some (Room (convert_room_for_api (new_room e d p1 c1 i1)))) None"
    and modes: "(rooms_collection st = None \<and>
             (\<exists>s. i1 = StrId s \<and> fallback_find st s = None \<and>
                  st' = save_fallback_data e
                          (st\<lparr>fallback_rooms := fallback_rooms st @ [new_room e d p1 c1 i1]\<rparr>)))
            \<or> (\<exists>coll. rooms_collection st = Some coll \<and>
                  (i1 = ObjId (new_object_id e) \<or> (\<exists>s. i1 = StrId s)) \<and>
                  st' = sync_mongodb_to_json e
                          (st\<lparr>rooms_collection :=
                                Some (replace_one_upsert i1 (new_room e d p1 c1 i1) coll)\<rparr>))"
    by blast
  from h r have a: "a = convert_room_for_api (new_room e d p1 c1 i1)"
    by (simp add: succeed_def)
  then have ida: "api_id a = id_str i1" by simp
  from modes consider
    (fallback) s where "rooms_collection st = None" "i1 = StrId s" "fallback_find st s = None"
      "st' = save_fallback_data e
               (st\<lparr>fallback_rooms := fallback_rooms st @ [new_room e d p1 c1 i1]\<rparr>)"
    | (mongo) coll0 where "rooms_collection st = Some coll0"
      "i1 = ObjId (new_object_id e) \<or> (\<exists>s. i1 = StrId s)"
      "st' = sync_mongodb_to_json e
               (st\<lparr>rooms_collection :=
                     Some (replace_one_upsert i1 (new_room e d p1 c1 i1) coll0)\<rparr>)"
    by blast
  then show "add_room e' st' d' = (failure 400 (Room_exists (api_id a)), st')"
  proof cases
    case fallback
    note n = fallback(1) and i1 = fallback(2) and nf = fallback(3) and st' = fallback(4)
    have rc: "rooms_collection st' = None"
      using n st' by (simp add: save_fallback_data_def)
    have "fallback_find st' s = Some (new_room e d p1 c1 i1)"
      using nf i1 unfolding st'
      by (simp add: fallback_find_def save_fallback_data_def find_append_last)
    moreover have "(case supplied_id (custom_id d') of Some s \<Rightarrow> Some s
          | None \<Rightarrow> new_id (fallback_rooms st')) = Some s"
      using h rc ida i1 by (simp add: id_str_def)
    ultimately have "add_room e' st' d' = (failure 400 (Room_exists s), st')"
      using add_room_fallback_exists[OF assms rc] by blast
    then show ?thesis using ida i1 by (simp add: id_str_def)
  next
    case mongo
    note m = mongo(1) and i1 = mongo(2) and st' = mongo(3)
    let ?coll1 = "replace_one_upsert i1 (new_room e d p1 c1 i1) coll0"
    have rc: "rooms_collection st' = Some ?coll1"
      unfolding st' by simp
    with h have s2: "db_ok e'" "supplied_id (custom_id d') = Some (api_id a)"
      by auto
    have len4: "length (api_id a) = 4"
      using supplied_id_passes[OF s2(2) assms(2)] by simp
    have "i1 \<noteq> ObjId (new_object_id e)"
    proof
      assume "i1 = ObjId (new_object_id e)"
      then have "length (api_id a) = 24"
        using ida h by (simp add: id_str_def length_hexlify)
      with len4 show False by simp
    qed
    with i1 obtain s where s: "i1 = StrId s" by blast
    then have as: "api_id a = s" using ida by (simp add: id_str_def)
    have "find_one ?coll1 (StrId (api_id a)) = Some (new_room e d p1 c1 i1)"
      using as s by (simp add: find_one_replace_one_upsert)
    then show ?thesis
      using add_room_mongo_exists[OF assms rc s2] by blast
  qed
qed

theorem add_room_duplicate_id_witness:
  "add_room example_env
     (snd (add_room example_env (fallback_store []) (room_request_with (Some (Text (str ''0201''))))))
     (room_request_with (Some (Text (str ''0201'')))) =
     (failure 400 (Room_exists (str ''0201'')),
      snd (add_room example_env (fallback_store []) (room_request_with (Some (Text (str ''0201''))))))
   \<and> add_room example_env
     (snd (add_room example_env (mongo_store []) (room_request_with (Some (Text (str ''0201''))))))
     (room_request_with (Some (Text (str ''0201'')))) =
     (failure 400 (Room_exists (str ''0201'')),
      snd (add_room example_env (mongo_store []) (room_request_with (Some (Text (str ''0201''))))))"
proof -
  let ?d = "room_request_with (Some (Text (str ''0201'')))"
  let ?a = "convert_room_for_api (new_room example_env ?d 650 3 (StrId (str ''0201'')))"
  let ?r = "succeed 201 (Some ''Room added successfully'') (Some (Room ?a)) None"
  have v: "has_required_fields ?d" "check_custom_id (custom_id ?d) = Id_passes"
    "req_price ?d = Some (Converts 650)" "req_capacity ?d = Some (Converts 3)"
    by (simp_all add: has_required_fields_def check_custom_id_def room_request_with_def
          isdigit_def isdigit_char_def isdecimal_char_def decimal_blocks_def str_def)
  have t: "supplied_id (custom_id ?d) = Some (str ''0201'')"
    by (simp add: room_request_with_def supplied_id_def str_def)
  have f: "fst (add_room example_env (fallback_store []) ?d) = ?r"
    and fr: "rooms_collection (snd (add_room example_env (fallback_store []) ?d)) = None"
    using v t
    by (simp_all add: add_room_def fallback_store_def fallback_find_def save_fallback_data_def)
  have ok: "db_ok example_env" "length (new_object_id example_env) = 12"
    by (simp_all add: example_env_def)
  have m: "fst (add_room example_env (mongo_store []) ?d) = ?r"
    and mr: "rooms_collection (snd (add_room example_env (mongo_store []) ?d)) \<noteq> None"
    using v t ok(1)
    by (simp_all add: add_room_def mongo_store_def find_one_def)
  have sr: "status ?r = 201" "data ?r = Some (Room ?a)" "api_id ?a = str ''0201''"
    by (simp_all add: succeed_def id_str_def)
  note a = add_room_duplicate_id[OF v, where e = example_env and e' = example_env
      and st = "fallback_store []" and d = ?d and r = ?r and a = ?a
      and st' = "snd (add_room example_env (fallback_store []) ?d)"]
  note b = add_room_duplicate_id[OF v, where e = example_env and e' = example_env
      and st = "mongo_store []" and d = ?d and r = ?r and a = ?a
      and st' = "snd (add_room example_env (mongo_store []) ?d)"]
  have 1: "add_room example_env (fallback_store []) ?d =
             (?r, snd (add_room example_env (fallback_store []) ?d))"
    using f by (metis prod.collapse)
  have 2: "add_room example_env (mongo_store []) ?d =
             (?r, snd (add_room example_env (mongo_store []) ?d))"
    using m by (metis prod.collapse)
  have c1: "case rooms_collection (snd (add_room example_env (fallback_store []) ?d)) of
           None \<Rightarrow>
             (case supplied_id (custom_id ?d) of Some s \<Rightarrow> Some s
              | None \<Rightarrow>
                  new_id (fallback_rooms (snd (add_room example_env (fallback_store []) ?d)))) =
               Some (api_id ?a)
         | Some coll' \<Rightarrow> db_ok example_env \<and> supplied_id (custom_id ?d) = Some (api_id ?a)"
    using fr t sr(3) by simp
  have c2: "case rooms_collection (snd (add_room example_env (mongo_store []) ?d)) of
           None \<Rightarrow>
             (case supplied_id (custom_id ?d) of Some s \<Rightarrow> Some s
              | None \<Rightarrow>
                  new_id (fallback_rooms (snd (add_room example_env (mongo_store []) ?d)))) =
               Some (api_id ?a)
         | Some coll' \<Rightarrow> db_ok example_env \<and> supplied_id (custom_id ?d) = Some (api_id ?a)"
    using mr t sr(3) ok(1) by (auto split: option.splits)
  have "add_room example_env (snd (add_room example_env (fallback_store []) ?d)) ?d =
          (failure 400 (Room_exists (api_id ?a)),
           snd (add_room example_env (fallback_store []) ?d))"
    using a 1 sr(1,2) ok(2) c1 by blast
  moreover have "add_room example_env (snd (add_room example_env (mongo_store []) ?d)) ?d =
          (failure 400 (Room_exists (api_id ?a)),
           snd (add_room example_env (mongo_store []) ?d))"
    using b 2 sr(1,2) ok(2) c2 by blast
  ultimately show ?thesis unfolding sr(3) by simp
qed

section \<open>Updating a room\<close>

lemma set_opt_given:
  "set_opt v (\<lambda>x r. r\<lparr>name := x\<rparr>) r = r\<lparr>name := given v (name r)\<rparr>"
  "set_opt w (\<lambda>x r. r\<lparr>description := x\<rparr>) r = r\<lparr>description := given w (description r)\<rparr>"
  "set_opt u (\<lambda>x r. r\<lparr>amenities := x\<rparr>) r = r\<lparr>amenities := given u (amenities r)\<rparr>"
  by (simp_all add: set_opt_def given_def split: option.splits)

lemma set_conv_given:
  "v \<noteq> Some Raises \<Longrightarrow>
   set_conv v (\<lambda>x r. r\<lparr>price := x\<rparr>) r = Some (r\<lparr>price := given_conv v (price r)\<rparr>)"
  "w \<noteq> Some Raises \<Longrightarrow>
   set_conv w (\<lambda>x r. r\<lparr>persons := x\<rparr>) r = Some (r\<lparr>persons := given_conv w (persons r)\<rparr>)"
  by (simp_all add: set_conv_def given_conv_def split: option.splits conv.splits)

lemma assign_fields_fallback:
  assumes "req_price d \<noteq> Some Raises" "req_capacity d \<noteq> Some Raises"
  shows "assign_fields False d r =
           (r\<lparr>name := given (req_name d) (name r),
              price := given_conv (req_price d) (price r),
              persons := given_conv (req_capacity d) (persons r),
              description := given (req_description d) (description r),
              amenities := given (req_amenities d) (amenities r)\<rparr>, True)"
  using assms by (simp add: assign_fields_def set_opt_given set_conv_given)

lemma assign_fields_mongo:
  assumes "req_price d \<noteq> Some Raises" "req_capacity d \<noteq> Some Raises"
    "req_persons d \<noteq> Some Raises"
  shows "assign_fields True d r =
           (r\<lparr>name := given (req_name d) (name r),
              price := given_conv (req_price d) (price r),
              persons := given_conv (req_persons d) (given_conv (req_capacity d) (persons r)),
              description := given (req_description d) (description r),
              amenities := given (req_amenities d) (amenities r)\<rparr>, True)"
  using assms by (simp add: assign_fields_def set_opt_given set_conv_given)

lemma mongo_find_find_one:
  "mongo_find coll rid = Some r \<Longrightarrow> find_one coll (doc_id r) = Some r"
  by (auto simp: mongo_find_def find_one_def find_Some_iff split: option.splits)

lemma update_room_fallback:
  assumes "req_price d \<noteq> Some Raises" "req_capacity d \<noteq> Some Raises"
    and "rooms_collection st = None" "fallback_find st rid = Some r"
    and R: "R = r\<lparr>name := given (req_name d) (name r),
                 price := given_conv (req_price d) (price r),
                 persons := given_conv (req_capacity d) (persons r),
                 description := given (req_description d) (description r),
                 amenities := given (req_amenities d) (amenities r),
                 updated_at := utcnow e\<rparr>"
  shows "update_room e st rid d =
           (succeed 200 (Some ''Room updated successfully'')
              (Some (Room (convert_room_for_api R))) None,
            save_fallback_data e
              (st\<lparr>fallback_rooms :=
                    update_first (\<lambda>x. doc_id x = StrId rid) (\<lambda>_. R) (fallback_rooms st)\<rparr>))"
  using assms(3,4) unfolding R
  by (simp add: update_room_def assign_fields_fallback[OF assms(1,2)])

lemma update_room_mongo:
  assumes "req_price d \<noteq> Some Raises" "req_capacity d \<noteq> Some Raises"
    "req_persons d \<noteq> Some Raises"
    and "rooms_collection st = Some coll" "db_ok e" "mongo_find coll rid = Some r"
    and R: "R = r\<lparr>name := given (req_name d) (name r),
                 price := given_conv (req_price d) (price r),
                 persons := given_conv (req_persons d) (given_conv (req_capacity d) (persons r)),
                 description := given (req_description d) (description r),
                 amenities := given (req_amenities d) (amenities r),
                 updated_at := utcnow e\<rparr>"
  shows "update_room e st rid d =
           (succeed 200 (Some ''Room updated successfully'')
              (Some (Room (convert_room_for_api R))) None,
            sync_mongodb_to_json e
              (st\<lparr>rooms_collection := Some (replace_one_upsert (doc_id r) R coll)\<rparr>))"
  using assms(4-6) unfolding R
  by (simp add: update_room_def assign_fields_mongo[OF assms(1-3)])


text \<open>
  C6. For a stored room and an update request whose numbers convert, \<open>update_room\<close>
  answers 200 with the room in which exactly the fields the request has are replaced
  (\<open>capacity\<close> is stored as \<open>persons\<close>; the database branch also reads \<open>persons\<close>), every
  other field keeps its value and \<open>updated_at\<close> is the current time. The result replaces
  the stored room, the other rooms stay, and the file is rewritten from the store when it
  can be written. For an identifier no room has, the answer is 404 and nothing changes.
\<close>

theorem update_room_partial_update:
  assumes "req_price d \<noteq> Some Raises" and "req_capacity d \<noteq> Some Raises"
    and "req_persons d \<noteq> Some Raises"
    and "Rf = r\<lparr>name := given (req_name d) (name r),
                 price := given_conv (req_price d) (price r),
                 persons := given_conv (req_capacity d) (persons r),
                 description := given (req_description d) (description r),
                 amenities := given (req_amenities d) (amenities r),
                 updated_at := utcnow e\<rparr>"
    and "Rm = Rf\<lparr>persons := given_conv (req_persons d) (persons Rf)\<rparr>"
  shows
    "(rooms_collection st = None \<and> fallback_find st rid = Some r \<longrightarrow>
        fst (update_room e st rid d) =
          succeed 200 (Some ''Room updated successfully'')
            (Some (Room (convert_room_for_api Rf))) None
        \<and> fallback_find (snd (update_room e st rid d)) rid = Some Rf
        \<and> fallback_rooms (snd (update_room e st rid d)) =
            update_first (\<lambda>x. doc_id x = StrId rid) (\<lambda>_. Rf) (fallback_rooms st)
        \<and> (file_ok e \<longrightarrow>
             json_file (snd (update_room e st rid d)) =
               map to_json (fallback_rooms (snd (update_room e st rid d)))))
     \<and> (rooms_collection st = None \<and> fallback_find st rid = None \<longrightarrow>
          update_room e st rid d = (failure 404 (Err ''Room not found''), st))
     \<and> (rooms_collection st = Some coll \<and> db_ok e \<and> mongo_find coll rid = Some r \<longrightarrow>
          fst (update_room e st rid d) =
            succeed 200 (Some ''Room updated successfully'')
              (Some (Room (convert_room_for_api Rm))) None
          \<and> (\<exists>coll'. rooms_collection (snd (update_room e st rid d)) = Some coll' \<and>
                find_one coll' (doc_id r) = Some Rm \<and>
                (file_ok e \<longrightarrow> json_file (snd (update_room e st rid d)) = map to_json coll')))
     \<and> (rooms_collection st = Some coll \<and> db_ok e \<and> mongo_find coll rid = None \<longrightarrow>
          update_room e st rid d = (failure 404 (Err ''Room not found''), st))"
proof (intro conjI impI)
  assume h: "rooms_collection st = None \<and> fallback_find st rid = Some r"
  then have u: "update_room e st rid d =
           (succeed 200 (Some ''Room updated successfully'')
              (Some (Room (convert_room_for_api Rf))) None,
            save_fallback_data e
              (st\<lparr>fallback_rooms :=
                    update_first (\<lambda>x. doc_id x = StrId rid) (\<lambda>_. Rf) (fallback_rooms st)\<rparr>))"
    using update_room_fallback[OF assms(1,2) _ _ assms(4)] by blast
  show "fst (update_room e st rid d) =
          succeed 200 (Some ''Room updated successfully'')
            (Some (Room (convert_room_for_api Rf))) None"
    unfolding u by simp
  have "doc_id ((\<lambda>_. Rf) r) = doc_id r" unfolding assms(4) by simp
  with h show "fallback_find (snd (update_room e st rid d)) rid = Some Rf"
    unfolding u by (simp add: fallback_find_after_update)
  show "fallback_rooms (snd (update_room e st rid d)) =
            update_first (\<lambda>x. doc_id x = StrId rid) (\<lambda>_. Rf) (fallback_rooms st)"
    unfolding u by (simp add: save_fallback_data_def)
  assume "file_ok e"
  then show "json_file (snd (update_room e st rid d)) =
               map to_json (fallback_rooms (snd (update_room e st rid d)))"
    unfolding u by (simp add: save_fallback_data_def)
next
  assume "rooms_collection st = None \<and> fallback_find st rid = None"
  then show "update_room e st rid d = (failure 404 (Err ''Room not found''), st)"
    by (simp add: update_room_def)
next
  assume h: "rooms_collection st = Some coll \<and> db_ok e \<and> mongo_find coll rid = Some r"
  have Rm: "Rm = r\<lparr>name := given (req_name d) (name r),
                 price := given_conv (req_price d) (price r),
                 persons := given_conv (req_persons d) (given_conv (req_capacity d) (persons r)),
                 description := given (req_description d) (description r),
                 amenities := given (req_amenities d) (amenities r),
                 updated_at := utcnow e\<rparr>"
    unfolding assms(5) assms(4) by simp
  from h have u: "update_room e st rid d =
           (succeed 200 (Some ''Room updated successfully'')
              (Some (Room (convert_room_for_api Rm))) None,
            sync_mongodb_to_json e
              (st\<lparr>rooms_collection := Some (replace_one_upsert (doc_id r) Rm coll)\<rparr>))"
    using update_room_mongo[OF assms(1-3) _ _ _ Rm] by blast
  show "fst (update_room e st rid d) =
            succeed 200 (Some ''Room updated successfully'')
              (Some (Room (convert_room_for_api Rm))) None"
    unfolding u by simp
  have id: "doc_id Rm = doc_id r" unfolding Rm by simp
  show "\<exists>coll'. rooms_collection (snd (update_room e st rid d)) = Some coll' \<and>
                find_one coll' (doc_id r) = Some Rm \<and>
                (file_ok e \<longrightarrow> json_file (snd (update_room e st rid d)) = map to_json coll')"
    unfolding u using h id
    by (simp add: find_one_replace_one_upsert sync_mongodb_to_json_def)
next
  assume "rooms_collection st = Some coll \<and> db_ok e \<and> mongo_find coll rid = None"
  then show "update_room e st rid d = (failure 404 (Err ''Room not found''), st)"
    by (simp add: update_room_def)
qed

theorem update_room_partial_update_witness:
  "fst (update_room example_env (fallback_store [example_room (Some [])]) (str ''0101'')
        (price_request 700)) =
     succeed 200 (Some ''Room updated successfully'')
       (Some (Room (convert_room_for_api
          ((example_room (Some []))\<lparr>price := 700, updated_at := utcnow example_env\<rparr>)))) None
   \<and> snd (update_room example_env (fallback_store [example_room (Some [])]) (str ''0101'')
        (price_request 700)) =
     fallback_store [(example_room (Some []))\<lparr>price := 700, updated_at := utcnow example_env\<rparr>]
   \<and> update_room example_env (fallback_store [example_room (Some [])]) (str ''0999'')
        (price_request 700) =
     (failure 404 (Err ''Room not found''), fallback_store [example_room (Some [])])
   \<and> snd (update_room example_env (mongo_store [example_room (Some [])]) (str ''0101'')
        (price_request 700)) =
     mongo_store [(example_room (Some []))\<lparr>price := 700, updated_at := utcnow example_env\<rparr>]
   \<and> update_room example_env (mongo_store [example_room (Some [])]) (str ''0999'')
        (price_request 700) =
     (failure 404 (Err ''Room not found''), mongo_store [example_room (Some [])])"
proof -
  let ?r = "example_room (Some [])"
  let ?d = "price_request 700"
  let ?R = "?r\<lparr>price := 700, updated_at := utcnow example_env\<rparr>"
  have v: "req_price ?d \<noteq> Some Raises" "req_capacity ?d \<noteq> Some Raises"
    "req_persons ?d \<noteq> Some Raises"
    by (simp_all add: price_request_def)
  have Rf: "?R = ?r\<lparr>name := given (req_name ?d) (name ?r),
                 price := given_conv (req_price ?d) (price ?r),
                 persons := given_conv (req_capacity ?d) (persons ?r),
                 description := given (req_description ?d) (description ?r),
                 amenities := given (req_amenities ?d) (amenities ?r),
                 updated_at := utcnow example_env\<rparr>"
    by (simp add: price_request_def given_def given_conv_def)
  have Rm: "?R = ?R\<lparr>persons := given_conv (req_persons ?d) (persons ?R)\<rparr>"
    by (simp add: price_request_def given_conv_def)
  have env: "db_ok example_env" "file_ok example_env" by (simp_all add: example_env_def)
  have f1: "rooms_collection (fallback_store [?r]) = None"
    "fallback_find (fallback_store [?r]) (str ''0101'') = Some ?r"
    "fallback_find (fallback_store [?r]) (str ''0999'') = None"
    by (simp_all add: fallback_store_def fallback_find_def example_room_def str_def)
  have m1: "rooms_collection (mongo_store [?r]) = Some [?r]"
    "mongo_find [?r] (str ''0101'') = Some ?r"
    "mongo_find [?r] (str ''0999'') = None"
    by (simp_all add: mongo_store_def mongo_find_def find_one_def ObjectId_def example_room_def
          str_def)
  note a = update_room_partial_update[OF v Rf Rm, where st = "fallback_store [?r]"
      and rid = "str ''0101''" and coll = "[?r]"]
  note b = update_room_partial_update[OF v Rf Rm, where st = "fallback_store [?r]"
      and rid = "str ''0999''" and coll = "[?r]"]
  note d = update_room_partial_update[OF v Rf Rm, where st = "mongo_store [?r]"
      and rid = "str ''0999''" and coll = "[?r]"]
  have 1: "fst (update_room example_env (fallback_store [?r]) (str ''0101'') ?d) =
     succeed 200 (Some ''Room updated successfully'') (Some (Room (convert_room_for_api ?R))) None"
    using a f1 by blast
  have 2: "snd (update_room example_env (fallback_store [?r]) (str ''0101'') ?d) =
      fallback_store [?R]"
    unfolding update_room_fallback[OF v(1,2) f1(1,2) Rf]
    using env
    by (simp add: save_fallback_data_def fallback_store_def to_json_def id_str_def
          example_room_def)
  have 3: "update_room example_env (fallback_store [?r]) (str ''0999'') ?d =
     (failure 404 (Err ''Room not found''), fallback_store [?r])"
    using b f1 by blast
  have 5: "update_room example_env (mongo_store [?r]) (str ''0999'') ?d =
     (failure 404 (Err ''Room not found''), mongo_store [?r])"
    using d m1 env by blast
  have 4: "snd (update_room example_env (mongo_store [?r]) (str ''0101'') ?d) = mongo_store [?R]"
  proof -
    have Rmm: "?R = ?r\<lparr>name := given (req_name ?d) (name ?r),
                 price := given_conv (req_price ?d) (price ?r),
                 persons := given_conv (req_persons ?d)
                              (given_conv (req_capacity ?d) (persons ?r)),
                 description := given (req_description ?d) (description ?r),
                 amenities := given (req_amenities ?d) (amenities ?r),
                 updated_at := utcnow example_env\<rparr>"
      by (simp add: price_request_def given_def given_conv_def)
    have id: "doc_id ?r = StrId (str ''0101'')" by (simp add: example_room_def)
    show ?thesis
      unfolding update_room_mongo[OF v m1(1) env(1) m1(2) Rmm]
      using env
      by (simp add: sync_mongodb_to_json_def mongo_store_def replace_one_upsert_def
            find_one_def to_json_def id_str_def id)
  qed
  from 1 2 3 4 5 show ?thesis by simp
qed

end
